theory Spec2Isabelle
  imports Complex_Main
begin

section \<open>Data model\<close>

text \<open>
  The layer is \<^verbatim>\<open>dyn_batch_normalization_4d_layer\<close> of
  \<^verbatim>\<open>dll/neural/dyn_batch_normalization_layer_4d.inl\<close>.

  The C++ type \<^verbatim>\<open>weight\<close> is a binary floating-point type.  It is embedded as
  \<^typ>\<open>real\<close>: every statement below is about the formulas the code evaluates, read in
  exact arithmetic, and says nothing about rounding.  Values that exact arithmetic does
  not have (the result of a division by a zero weight, the square root of a negative
  weight) are not given a meaning: a call that would produce one ends in the error
  \<open>NotFinite\<close>.

  An \<^verbatim>\<open>etl::dyn_matrix<weight, 1>\<close> is a list, an
  \<^verbatim>\<open>etl::dyn_matrix<weight, 4>\<close> is a list of lists four deep, indexed
  batch, channel, row, column, so that \<^verbatim>\<open>input(b)(k)\<close> is \<open>inp ! b ! k\<close>, a matrix.
  ETL checks dimensions and indices by assertions that release builds compile away;
  a call that reads or writes outside the dimensions of a tensor has no defined
  behaviour in C++, and is an error value here.
\<close>

type_synonym weight = real
type_synonym vec = "weight list"
type_synonym mat2 = "weight list list"
type_synonym mat4 = "weight list list list list"

datatype error = ShapeMismatch | OutOfBounds | DivisionByZero | NotFinite

text \<open>\<^verbatim>\<open>static constexpr weight e = 1e-8\<close>\<close>

definition e :: weight where
  "e = 1 / 10 ^ 8"

text \<open>
  The fields of the layer.  \<^verbatim>\<open>w\<close> and \<^verbatim>\<open>b\<close> are references to
  \<^verbatim>\<open>gamma\<close> and \<^verbatim>\<open>beta\<close> and need no field of their own.  A matrix that was
  default-constructed owns no memory; for \<open>input_pre\<close>, the one field the code
  tests for that, this is \<open>None\<close>.
\<close>

record layer =
  gamma :: vec
  beta :: vec
  mean :: vec
  var :: vec
  last_mean :: vec
  last_var :: vec
  inv_var :: vec
  input_pre :: "mat4 option"
  momentum :: weight
  bak_gamma :: "vec option"
  bak_beta :: "vec option"
  Kernels :: nat
  W :: nat
  H :: nat

text \<open>\<^verbatim>\<open>sgd_context<DBN, dyn_batch_normalization_4d_layer<Desc>, L>\<close>\<close>

record sgd_context =
  input :: mat4
  "output" :: mat4
  errors :: mat4
  w_grad :: vec
  b_grad :: vec

text \<open>\<^verbatim>\<open>size_t\<close> arithmetic is arithmetic modulo \<open>2 ^ 64\<close>.\<close>

definition size_t :: "nat \<Rightarrow> nat" where
  "size_t n = n mod 2 ^ 64"

subsection \<open>Shapes\<close>

definition shape2 :: "nat \<Rightarrow> nat \<Rightarrow> mat2 \<Rightarrow> bool" where
  "shape2 w h m \<longleftrightarrow> length m = w \<and> list_all (\<lambda>r. length r = h) m"

definition shape4 :: "nat \<Rightarrow> nat \<Rightarrow> nat \<Rightarrow> nat \<Rightarrow> mat4 \<Rightarrow> bool" where
  "shape4 n k w h t \<longleftrightarrow>
     length t = n \<and> list_all (\<lambda>s. length s = k \<and> list_all (shape2 w h) s) t"

text \<open>
  A buffer the loops over \<open>b < n\<close> and \<open>k < Kernels\<close> can write to: it has at
  least \<open>n\<close> samples, each of \<open>k\<close> planes of \<open>w\<close> by \<open>h\<close> weights.
\<close>

definition holds_batch :: "nat \<Rightarrow> nat \<Rightarrow> nat \<Rightarrow> nat \<Rightarrow> mat4 \<Rightarrow> bool" where
  "holds_batch n k w h t \<longleftrightarrow> n \<le> length t \<and> shape4 (length t) k w h t"

section \<open>The operations of the tensor library\<close>

text \<open>
  ETL is a library of its own and its sources are not part of the layer's file.  The
  operations the layer uses are written out here as the expressions they stand for.
\<close>

text \<open>\<^verbatim>\<open>etl::sum(m)\<close>: the sum of all elements.\<close>

definition etl_sum :: "mat2 \<Rightarrow> weight" where
  "etl_sum m = sum_list (map sum_list m)"

text \<open>
  \<^verbatim>\<open>m - c\<close>, \<^verbatim>\<open>m + c\<close>, \<^verbatim>\<open>c >> m\<close> (also \<^verbatim>\<open>c * m\<close>) and \<^verbatim>\<open>m >> c\<close> for a matrix
  \<open>m\<close> and a scalar \<open>c\<close>.
\<close>

definition sub_scalar :: "mat2 \<Rightarrow> weight \<Rightarrow> mat2" where
  "sub_scalar m c = map (map (\<lambda>x. x - c)) m"

definition add_scalar :: "mat2 \<Rightarrow> weight \<Rightarrow> mat2" where
  "add_scalar m c = map (map (\<lambda>x. x + c)) m"

definition scale :: "weight \<Rightarrow> mat2 \<Rightarrow> mat2" where
  "scale c m = map (map (\<lambda>x. c * x)) m"

definition scale_by :: "mat2 \<Rightarrow> weight \<Rightarrow> mat2" where
  "scale_by m c = map (map (\<lambda>x. x * c)) m"

text \<open>\<^verbatim>\<open>a >> b\<close> (element-wise product) and \<^verbatim>\<open>a - b\<close> for two matrices.\<close>

definition hadamard :: "mat2 \<Rightarrow> mat2 \<Rightarrow> mat2" where
  "hadamard a b = map2 (map2 (*)) a b"

definition sub2 :: "mat2 \<Rightarrow> mat2 \<Rightarrow> mat2" where
  "sub2 a b = map2 (map2 (-)) a b"

text \<open>\<^verbatim>\<open>a >> b\<close> for two 4D tensors.\<close>

definition hadamard4 :: "mat4 \<Rightarrow> mat4 \<Rightarrow> mat4" where
  "hadamard4 a b = map2 (map2 hadamard) a b"

text \<open>
  Modelled from the spec: \<^verbatim>\<open>etl::bias_batch_sum_4d\<close> and
  \<^verbatim>\<open>etl::bias_batch_mean_4d\<close> are ETL's, not in the layer's file.  The spec has them as
  ``a reduction over every axis except the channel axis'': for each channel, the sum
  (the mean) over the batch and the two spatial axes.  ETL reads the number of
  channels and the number of observations from the dimensions of its argument; a
  nested list with no sample has lost them, so they are arguments here.
\<close>

definition bias_batch_sum_4d :: "nat \<Rightarrow> mat4 \<Rightarrow> vec" where
  "bias_batch_sum_4d k x = map (\<lambda>c. sum_list (map (\<lambda>s. etl_sum (s ! c)) x)) [0..<k]"

definition bias_batch_mean_4d :: "nat \<Rightarrow> nat \<Rightarrow> mat4 \<Rightarrow> vec" where
  "bias_batch_mean_4d k n x = map (\<lambda>s. s / real n) (bias_batch_sum_4d k x)"

text \<open>
  Modelled from the spec: the constructor \<^verbatim>\<open>etl::dyn_vector<weight>(n)\<close> is ETL's.
  The spec has the vectors it makes ``at default (zero)''.
\<close>

definition dyn_vector :: "nat \<Rightarrow> vec" where
  "dyn_vector n = replicate n 0"

text \<open>\<^verbatim>\<open>v = c\<close>: every element of the vector becomes \<open>c\<close>.\<close>

definition fill :: "weight \<Rightarrow> vec \<Rightarrow> vec" where
  "fill c v = map (\<lambda>_. c) v"

text \<open>
  \<^verbatim>\<open>for (size_t i = 0; i < n; ++i) body\<close>, on the state the body changes: the body
  runs for \<open>i = 0\<close> first and \<open>i = n - 1\<close> last.
\<close>

primrec for_upto :: "nat \<Rightarrow> (nat \<Rightarrow> 's \<Rightarrow> 's) \<Rightarrow> 's \<Rightarrow> 's" where
  "for_upto 0 body s = s"
| "for_upto (Suc n) body s = body n (for_upto n body s)"

text \<open>\<^verbatim>\<open>t(b)(k) = m\<close>: the plane of sample \<open>b\<close> and channel \<open>k\<close> is overwritten.\<close>

definition set_plane :: "mat4 \<Rightarrow> nat \<Rightarrow> nat \<Rightarrow> mat2 \<Rightarrow> mat4" where
  "set_plane t b k m = t[b := (t ! b)[k := m]]"

section \<open>The layer\<close>

text \<open>The default constructor: no memory anywhere, \<^verbatim>\<open>momentum = 0.9\<close>, dimensions \<open>0\<close>.\<close>

definition dyn_batch_normalization_4d_layer :: layer where
  "dyn_batch_normalization_4d_layer =
     \<lparr>gamma = [], beta = [], mean = [], var = [], last_mean = [], last_var = [],
      inv_var = [], input_pre = None, momentum = 9 / 10, bak_gamma = None,
      bak_beta = None, Kernels = 0, W = 0, H = 0\<rparr>"

definition init_layer :: "layer \<Rightarrow> nat \<Rightarrow> nat \<Rightarrow> nat \<Rightarrow> layer" where
  "init_layer l k w h =
     (let l1 = l\<lparr>Kernels := k, W := w, H := h\<rparr>;
          l2 = l1\<lparr>gamma := dyn_vector k, beta := dyn_vector k\<rparr>;
          l3 = l2\<lparr>mean := dyn_vector k, var := dyn_vector k\<rparr>;
          l4 = l3\<lparr>last_mean := dyn_vector k, last_var := dyn_vector k,
                  inv_var := dyn_vector k\<rparr>
      in l4\<lparr>gamma := fill 1 (gamma l4), beta := fill 0 (beta l4)\<rparr>)"

text \<open>
  The seven vectors have \<open>Kernels\<close> elements each: what \<open>init_layer\<close> sets up.
  Each method below relies on it for the vectors it indexes with \<open>k < Kernels\<close> or
  assigns a \<open>Kernels\<close>-element expression to.
\<close>

definition vectors_ok :: "layer \<Rightarrow> bool" where
  "vectors_ok l \<longleftrightarrow>
     length (gamma l) = Kernels l \<and> length (beta l) = Kernels l \<and>
     length (mean l) = Kernels l \<and> length (var l) = Kernels l \<and>
     length (last_mean l) = Kernels l \<and> length (last_var l) = Kernels l \<and>
     length (inv_var l) = Kernels l"

subsection \<open>Inference forward pass\<close>

text \<open>
  \<^verbatim>\<open>test_batch_activate_hidden(output, input) const\<close>.  The method is \<^verbatim>\<open>const\<close>: it
  works on the layer it is given and hands it back as it was; what it changes is the
  caller's \<open>output\<close> buffer, in the planes \<open>(b, k)\<close> with \<open>b < B\<close> and
  \<open>k < Kernels\<close>.  The local \<^verbatim>\<open>inv_var\<close> hides the field of that name.
\<close>

definition test_batch_activate_hidden ::
  "layer \<Rightarrow> mat4 \<Rightarrow> mat4 \<Rightarrow> error + layer \<times> mat4" where
  "test_batch_activate_hidden l outp inp =
     (let B = length inp in
      if \<not> (length (gamma l) = Kernels l \<and> length (beta l) = Kernels l \<and>
             length (mean l) = Kernels l \<and> length (var l) = Kernels l \<and>
             shape4 B (Kernels l) (W l) (H l) inp) then Inl ShapeMismatch
      else if \<not> holds_batch B (Kernels l) (W l) (H l) outp then Inl OutOfBounds
      else if \<not> list_all (\<lambda>v. 0 < v + e) (var l) then Inl NotFinite
      else
        let inv_var = map (\<lambda>v. 1 / sqrt (v + e)) (var l) in
        Inr (l,
          for_upto B (\<lambda>b. for_upto (Kernels l) (\<lambda>k out.
            set_plane out b k
              (add_scalar
                 (scale (gamma l ! k) (scale_by (sub_scalar (inp ! b ! k) (mean l ! k)) (inv_var ! k)))
                 (beta l ! k)))) outp))"

text \<open>\<^verbatim>\<open>batch_activate_hidden\<close> is the inference pass.\<close>

definition batch_activate_hidden :: "layer \<Rightarrow> mat4 \<Rightarrow> mat4 \<Rightarrow> error + layer \<times> mat4" where
  "batch_activate_hidden l outp inp = test_batch_activate_hidden l outp inp"

subsection \<open>Training forward pass\<close>

text \<open>
  \<^verbatim>\<open>input_pre.inherit_if_null(input)\<close>: only a matrix without memory takes the
  dimensions of \<open>inp\<close> and gets memory; a matrix that has memory is left as it is,
  whatever its dimensions.
\<close>

definition inherit_if_null :: "mat4 option \<Rightarrow> mat4 \<Rightarrow> mat4" where
  "inherit_if_null m inp =
     (case m of None \<Rightarrow> map (map (map (map (\<lambda>_. 0)))) inp | Some t \<Rightarrow> t)"

text \<open>
  The body of the second pair of loops: \<^verbatim>\<open>input_pre(b)(k)\<close> is written, then read
  back for \<^verbatim>\<open>output(b)(k)\<close>.
\<close>

definition normalize_plane ::
  "layer \<Rightarrow> vec \<Rightarrow> vec \<Rightarrow> mat4 \<Rightarrow> nat \<Rightarrow> nat \<Rightarrow> mat4 \<times> mat4 \<Rightarrow> mat4 \<times> mat4" where
  "normalize_plane l lm iv inp b k = (\<lambda>(pre, out).
     let pre' = set_plane pre b k (scale_by (sub_scalar (inp ! b ! k) (lm ! k)) (iv ! k))
     in (pre', set_plane out b k (add_scalar (scale (gamma l ! k) (pre' ! b ! k)) (beta l ! k))))"

text \<open>
  \<^verbatim>\<open>train_batch_activate_hidden(output, input)\<close>.  \<open>S\<close> is a \<^verbatim>\<open>size_t\<close>, so
  \<^verbatim>\<open>S / (S - 1)\<close> in the last statement is a division of integers; with \<open>S = 1\<close> it
  divides by zero.
\<close>

definition train_batch_activate_hidden ::
  "layer \<Rightarrow> mat4 \<Rightarrow> mat4 \<Rightarrow> error + layer \<times> mat4" where
  "train_batch_activate_hidden l outp inp =
     (let B = length inp; S = size_t (B * W l * H l); K = Kernels l in
      if \<not> (vectors_ok l \<and> shape4 B K (W l) (H l) inp) then Inl ShapeMismatch
      else if S = 0 then Inl NotFinite
      else
        let lm = bias_batch_mean_4d K S inp;
            lv0 = fill 0 (last_var l);
            lv1 = for_upto B (\<lambda>b. for_upto K (\<lambda>k lv.
                    lv[k := lv ! k + etl_sum (hadamard (sub_scalar (inp ! b ! k) (lm ! k))
                                                       (sub_scalar (inp ! b ! k) (lm ! k)))])) lv0;
            lv = map (\<lambda>v. v / real S) lv1;
            iv = map (\<lambda>v. 1 / sqrt (v + e)) lv;
            pre0 = inherit_if_null (input_pre l) inp
        in
        if \<not> (holds_batch B K (W l) (H l) pre0 \<and> holds_batch B K (W l) (H l) outp)
        then Inl OutOfBounds
        else
          let (pre, out) = for_upto B (\<lambda>b. for_upto K (normalize_plane l lm iv inp b)) (pre0, outp)
          in
          if S - 1 = 0 then Inl DivisionByZero
          else
            Inr (l\<lparr>last_mean := lm, last_var := lv, inv_var := iv, input_pre := Some pre,
                   mean := map2 (\<lambda>m x. momentum l * m + (1 - momentum l) * x) (mean l) lm,
                   var := map2 (\<lambda>v x. momentum l * v
                                        + (1 - momentum l) * (real (S div (S - 1)) * x)) (var l) lv\<rparr>,
                 out))"

subsection \<open>Backward pass and gradients\<close>

text \<open>
  \<^verbatim>\<open>etl::force_temporary_dim_only(t)\<close>: a new tensor with the dimensions of \<open>t\<close>;
  the loop that follows writes every plane of it.
\<close>

definition force_temporary_dim_only :: "mat4 \<Rightarrow> mat4" where
  "force_temporary_dim_only t = map (map (map (map (\<lambda>_. 0)))) t"

text \<open>
  \<^verbatim>\<open>backward_batch(output, context) const\<close>.  \<open>B\<close> is read from
  \<^verbatim>\<open>context.input\<close>; \<^verbatim>\<open>1.0 / S\<close> is a division of weights.  The element-wise
  product \<^verbatim>\<open>dxhat >> input_pre\<close> needs \<open>input_pre\<close> to have memory, of the
  dimensions of \<^verbatim>\<open>context.errors\<close>.
\<close>

definition backward_batch :: "layer \<Rightarrow> mat4 \<Rightarrow> sgd_context \<Rightarrow> error + layer \<times> mat4" where
  "backward_batch l outp ctx =
     (let B = length (input ctx); S = size_t (B * W l * H l); K = Kernels l in
      case input_pre l of
        None \<Rightarrow> Inl ShapeMismatch
      | Some pre \<Rightarrow>
          if \<not> (length (gamma l) = K \<and> length (inv_var l) = K \<and>
                 shape4 B K (W l) (H l) (errors ctx) \<and> shape4 B K (W l) (H l) pre)
          then Inl ShapeMismatch
          else if \<not> holds_batch B K (W l) (H l) outp then Inl OutOfBounds
          else if S = 0 then Inl NotFinite
          else
            let dxhat = for_upto B (\<lambda>b. for_upto K (\<lambda>k d.
                          set_plane d b k (scale_by (errors ctx ! b ! k) (gamma l ! k))))
                          (force_temporary_dim_only (errors ctx));
                dxhat_l = bias_batch_sum_4d K dxhat;
                dxhat_xhat_l = bias_batch_sum_4d K (hadamard4 dxhat pre)
            in
            Inr (l,
              for_upto B (\<lambda>b. for_upto K (\<lambda>k out.
                set_plane out b k
                  (scale ((1 / real S) * inv_var l ! k)
                     (sub2 (sub_scalar (scale (real S) (dxhat ! b ! k)) (dxhat_l ! k))
                           (scale_by (pre ! b ! k) (dxhat_xhat_l ! k)))))) outp))"

text \<open>
  \<^verbatim>\<open>compute_gradients(context) const\<close>: the layer is handed back as it was, the
  two gradient vectors of the context are assigned.
\<close>

definition compute_gradients :: "layer \<Rightarrow> sgd_context \<Rightarrow> error + layer \<times> sgd_context" where
  "compute_gradients l ctx =
     (let B = length (errors ctx); K = Kernels l in
      case input_pre l of
        None \<Rightarrow> Inl ShapeMismatch
      | Some pre \<Rightarrow>
          if \<not> (shape4 B K (W l) (H l) (errors ctx) \<and> shape4 B K (W l) (H l) pre \<and>
                 length (w_grad ctx) = K \<and> length (b_grad ctx) = K)
          then Inl ShapeMismatch
          else
            Inr (l, ctx\<lparr>w_grad := bias_batch_sum_4d K (hadamard4 pre (errors ctx)),
                        b_grad := bias_batch_sum_4d K (errors ctx)\<rparr>))"

subsection \<open>Notation for the statements\<close>

text \<open>
  The sum of \<open>f b i j\<close> over the batch index \<open>b\<close> and the two spatial indices
  \<open>i\<close> and \<open>j\<close>: the spec's sum over ``b, spatial''.
\<close>

definition chan_sum :: "nat \<Rightarrow> nat \<Rightarrow> nat \<Rightarrow> (nat \<Rightarrow> nat \<Rightarrow> nat \<Rightarrow> weight) \<Rightarrow> weight" where
  "chan_sum n w h f = (\<Sum>b<n. \<Sum>i<w. \<Sum>j<h. f b i j)"

text \<open>
  What a caller owes \<open>train_batch_activate_hidden\<close>: the conjunction of the checks
  above.  The call returns exactly when it holds (\<open>train_returns_iff\<close> below).
\<close>

definition train_ok :: "layer \<Rightarrow> mat4 \<Rightarrow> mat4 \<Rightarrow> bool" where
  "train_ok l outp inp \<longleftrightarrow>
     vectors_ok l \<and> shape4 (length inp) (Kernels l) (W l) (H l) inp \<and>
     1 < size_t (length inp * W l * H l) \<and>
     holds_batch (length inp) (Kernels l) (W l) (H l) (inherit_if_null (input_pre l) inp) \<and>
     holds_batch (length inp) (Kernels l) (W l) (H l) outp"

subsection \<open>Sequences of calls\<close>

text \<open>
  Training forward passes one after the other on one layer, each writing to the buffer
  the one before left: what the graph engine does with the batches of an epoch.  The
  first call that fails ends the sequence.
\<close>

fun train_all :: "layer \<Rightarrow> mat4 \<Rightarrow> mat4 list \<Rightarrow> error + layer \<times> mat4" where
  "train_all l outp [] = Inr (l, outp)"
| "train_all l outp (x # xs) =
     (case train_batch_activate_hidden l outp x of
        Inl err \<Rightarrow> Inl err
      | Inr (l', out) \<Rightarrow> train_all l' out xs)"

subsection \<open>The spec's concrete scenario\<close>

text \<open>
  \<open>K = 1\<close>, \<open>W = 1\<close>, \<open>H = 1\<close>, \<open>B = 2\<close>, input \<open>[[2.0], [4.0]]\<close>, \<open>gamma = 1\<close>,
  \<open>beta = 0\<close>, \<open>momentum = 0.9\<close>, running mean and variance \<open>0\<close>, no cache yet, and an
  output buffer for two samples.
\<close>

definition example_layer :: layer where
  "example_layer =
     \<lparr>gamma = [1], beta = [0], mean = [0], var = [0], last_mean = [0], last_var = [0],
      inv_var = [0], input_pre = None, momentum = 9 / 10, bak_gamma = None,
      bak_beta = None, Kernels = 1, W = 1, H = 1\<rparr>"

definition example_input :: mat4 where
  "example_input = [[[[2]]], [[[4]]]]"

definition example_buffer :: mat4 where
  "example_buffer = [[[[0]]], [[[0]]]]"

text \<open>
  The layer and the output that the training pass of the scenario leaves, a context for
  the backward pass with all errors \<open>1\<close>, and a batch of three samples
  \<open>[[0], [0], [3]]\<close> with a buffer for it.
\<close>

definition example_trained :: layer where
  "example_trained =
     example_layer
       \<lparr>last_mean := [3], last_var := [1], inv_var := [1 / sqrt (1 + e)],
        input_pre := Some [[[[- (1 / sqrt (1 + e))]]], [[[1 / sqrt (1 + e)]]]],
        mean := [3 / 10], var := [1 / 5]\<rparr>"

definition example_output :: mat4 where
  "example_output = [[[[- (1 / sqrt (1 + e))]]], [[[1 / sqrt (1 + e)]]]]"

definition example_context :: sgd_context where
  "example_context =
     \<lparr>input = example_input, output = example_output, errors = [[[[1]]], [[[1]]]],
      w_grad = [0], b_grad = [0]\<rparr>"

definition batch3_input :: mat4 where
  "batch3_input = [[[[0]]], [[[0]]], [[[3]]]]"

definition batch3_buffer :: mat4 where
  "batch3_buffer = [[[[0]]], [[[0]]], [[[0]]]]"

section \<open>Initialisation\<close>

lemma vectors_ok_init_layer: "vectors_ok (init_layer l k w h)"
  by (simp add: vectors_ok_def init_layer_def Let_def fill_def dyn_vector_def)

text \<open>
  Claim C3.  After \<open>init_layer K W H\<close> on a freshly constructed layer, before any
  forward pass, each of the seven per-channel vectors \<open>gamma\<close>, \<open>beta\<close>, \<open>mean\<close>,
  \<open>var\<close>, \<open>last_mean\<close>, \<open>last_var\<close> and \<open>inv_var\<close> has exactly \<open>K\<close> elements,
  \<open>gamma\<close> is \<open>1\<close> everywhere, \<open>beta\<close> is \<open>0\<close> everywhere, and \<open>mean\<close> and \<open>var\<close>
  are \<open>0\<close> everywhere.  (That the memory of a new vector holds zeros is the spec's
  word about ETL's constructor.)
\<close>

theorem init_layer_state:
  "let l = init_layer dyn_batch_normalization_4d_layer k w h in
     length (gamma l) = k \<and> length (beta l) = k \<and> length (mean l) = k \<and>
     length (var l) = k \<and> length (last_mean l) = k \<and> length (last_var l) = k \<and>
     length (inv_var l) = k \<and>
     gamma l = replicate k 1 \<and> beta l = replicate k 0 \<and>
     mean l = replicate k 0 \<and> var l = replicate k 0 \<and>
     input_pre l = None \<and> Kernels l = k \<and> W l = w \<and> H l = h"
  by (simp add: init_layer_def Let_def fill_def dyn_vector_def
      dyn_batch_normalization_4d_layer_def map_replicate_const)

lemma example_layer_init:
  "example_layer = init_layer dyn_batch_normalization_4d_layer 1 1 1"
  by (simp add: example_layer_def init_layer_def Let_def fill_def dyn_vector_def
      dyn_batch_normalization_4d_layer_def)

section \<open>Loops\<close>

lemma for_upto_acc:
  "for_upto K (\<lambda>k lv. lv[k := lv ! k + g k]) lv =
     map (\<lambda>k. if k < K then lv ! k + g k else lv ! k) [0..<length lv]"
proof (induction K)
  case 0
  show ?case by (simp add: map_nth)
next
  case (Suc K)
  show ?case
    by (rule nth_equalityI) (auto simp: Suc nth_list_update less_Suc_eq)
qed

lemma for_upto_acc2:
  "for_upto B (\<lambda>b. for_upto K (\<lambda>k lv. lv[k := lv ! k + g b k])) lv =
     map (\<lambda>k. if k < K then lv ! k + (\<Sum>b<B. g b k) else lv ! k) [0..<length lv]"
proof (induction B)
  case 0
  show ?case by (rule nth_equalityI) auto
next
  case (Suc B)
  have "for_upto (Suc B) (\<lambda>b. for_upto K (\<lambda>k lv. lv[k := lv ! k + g b k])) lv =
        for_upto K (\<lambda>k lv. lv[k := lv ! k + g B k])
          (map (\<lambda>k. if k < K then lv ! k + (\<Sum>b<B. g b k) else lv ! k) [0..<length lv])"
    by (simp only: for_upto.simps Suc)
  also have "\<dots> = map (\<lambda>k. if k < K then lv ! k + (\<Sum>b<Suc B. g b k) else lv ! k) [0..<length lv]"
    unfolding for_upto_acc by (rule nth_equalityI) (auto simp: add.assoc)
  finally show ?case .
qed

lemma for_upto_set_plane:
  "b < length t \<Longrightarrow>
   for_upto K (\<lambda>k t. set_plane t b k (P k)) t =
     t[b := map (\<lambda>k. if k < K then P k else t ! b ! k) [0..<length (t ! b)]]"
proof (induction K)
  case 0
  then show ?case by (simp add: map_nth)
next
  case (Suc K)
  then show ?case
    apply (simp add: set_plane_def)
    apply (rule arg_cong [where f = "list_update t b"])
    apply (rule nth_equalityI)
     apply (auto simp: nth_list_update less_Suc_eq)
    done
qed

lemma for_upto_set_plane2:
  "B \<le> length t \<Longrightarrow>
   for_upto B (\<lambda>b. for_upto K (\<lambda>k t. set_plane t b k (P b k))) t =
     map (\<lambda>b. if b < B then map (\<lambda>k. if k < K then P b k else t ! b ! k) [0..<length (t ! b)]
               else t ! b) [0..<length t]"
proof (induction B)
  case 0
  show ?case by (simp add: map_nth)
next
  case (Suc B)
  then show ?case
    apply (simp add: for_upto_set_plane)
    apply (rule nth_equalityI)
     apply (auto simp: nth_list_update less_Suc_eq)
    done
qed

lemma set_plane_nth:
  "b < length t \<Longrightarrow> k < length (t ! b) \<Longrightarrow> set_plane t b k m ! b ! k = m"
  by (simp add: set_plane_def)

lemma length_for_upto_set_plane:
  "length (for_upto K (\<lambda>k t. set_plane t b k (P k)) t) = length t"
  by (induction K) (simp_all add: set_plane_def)

lemma length_nth_for_upto_set_plane:
  "b < length t \<Longrightarrow> length (for_upto K (\<lambda>k t. set_plane t b k (P k)) t ! b) = length (t ! b)"
  by (simp add: for_upto_set_plane)

lemma normalize_plane_inner:
  "b < length pre \<Longrightarrow> K \<le> length (pre ! b) \<Longrightarrow>
   for_upto K (normalize_plane l lm iv inp b) (pre, out) =
     (for_upto K (\<lambda>k t. set_plane t b k (scale_by (sub_scalar (inp ! b ! k) (lm ! k)) (iv ! k))) pre,
      for_upto K (\<lambda>k t. set_plane t b k
         (add_scalar (scale (gamma l ! k) (scale_by (sub_scalar (inp ! b ! k) (lm ! k)) (iv ! k)))
            (beta l ! k))) out)"
proof (induction K)
  case 0
  show ?case by simp
next
  case (Suc K)
  let ?P = "\<lambda>k. scale_by (sub_scalar (inp ! b ! k) (lm ! k)) (iv ! k)"
  let ?preK = "for_upto K (\<lambda>k t. set_plane t b k (?P k)) pre"
  from Suc have IH: "for_upto K (normalize_plane l lm iv inp b) (pre, out) =
     (?preK, for_upto K (\<lambda>k t. set_plane t b k
         (add_scalar (scale (gamma l ! k) (?P k)) (beta l ! k))) out)"
    by simp
  have len: "b < length ?preK" "K < length (?preK ! b)"
    using Suc.prems by (simp_all add: length_for_upto_set_plane length_nth_for_upto_set_plane)
  show ?case
    by (simp only: for_upto.simps IH)
       (simp add: normalize_plane_def Let_def set_plane_nth [OF len])
qed

lemma length_for_upto_set_plane2:
  "length (for_upto B (\<lambda>b. for_upto K (\<lambda>k t. set_plane t b k (P b k))) t) = length t"
  by (induction B) (simp_all add: length_for_upto_set_plane)

lemma nth_for_upto_set_plane2_beyond:
  "B \<le> b \<Longrightarrow> b < length t \<Longrightarrow>
   for_upto B (\<lambda>b. for_upto K (\<lambda>k t. set_plane t b k (P b k))) t ! b = t ! b"
  by (simp add: for_upto_set_plane2)

lemma normalize_plane_outer:
  "B \<le> length pre \<Longrightarrow> \<forall>b<B. K \<le> length (pre ! b) \<Longrightarrow>
   for_upto B (\<lambda>b. for_upto K (normalize_plane l lm iv inp b)) (pre, out) =
     (for_upto B (\<lambda>b. for_upto K (\<lambda>k t.
         set_plane t b k (scale_by (sub_scalar (inp ! b ! k) (lm ! k)) (iv ! k)))) pre,
      for_upto B (\<lambda>b. for_upto K (\<lambda>k t. set_plane t b k
         (add_scalar (scale (gamma l ! k) (scale_by (sub_scalar (inp ! b ! k) (lm ! k)) (iv ! k)))
            (beta l ! k)))) out)"
proof (induction B)
  case 0
  show ?case by simp
next
  case (Suc B)
  let ?preB = "for_upto B (\<lambda>b. for_upto K (\<lambda>k t.
         set_plane t b k (scale_by (sub_scalar (inp ! b ! k) (lm ! k)) (iv ! k)))) pre"
  from Suc have IH: "for_upto B (\<lambda>b. for_upto K (normalize_plane l lm iv inp b)) (pre, out) =
     (?preB, for_upto B (\<lambda>b. for_upto K (\<lambda>k t. set_plane t b k
         (add_scalar (scale (gamma l ! k) (scale_by (sub_scalar (inp ! b ! k) (lm ! k)) (iv ! k)))
            (beta l ! k)))) out)"
    by simp
  have len: "B < length ?preB" "K \<le> length (?preB ! B)"
    using Suc.prems by (simp_all add: length_for_upto_set_plane2 nth_for_upto_set_plane2_beyond)
  show ?case
    by (simp only: for_upto.simps IH normalize_plane_inner [OF len])
qed

section \<open>Tensor operations, element by element\<close>

lemma shape4_nth:
  "shape4 n k w h t \<Longrightarrow> b < n \<Longrightarrow> length (t ! b) = k"
  "shape4 n k w h t \<Longrightarrow> b < n \<Longrightarrow> c < k \<Longrightarrow> shape2 w h (t ! b ! c)"
  by (auto simp: shape4_def list_all_length)

lemma shape4_length: "shape4 n k w h t \<Longrightarrow> length t = n"
  by (simp add: shape4_def)

lemma shape2_nth:
  "shape2 w h m \<Longrightarrow> length m = w"
  "shape2 w h m \<Longrightarrow> i < w \<Longrightarrow> length (m ! i) = h"
  by (auto simp: shape2_def list_all_length)

lemma sum_list_map_nth: "sum_list (map f xs) = (\<Sum>i<length xs. f (xs ! i))"
  by (simp add: sum_list_sum_nth atLeast0LessThan)

lemma etl_sum_map:
  assumes "shape2 w h m"
  shows "etl_sum (map (map f) m) = (\<Sum>i<w. \<Sum>j<h. f (m ! i ! j))"
proof -
  have "etl_sum (map (map f) m) = (\<Sum>i<length m. \<Sum>j<length (m ! i). f (m ! i ! j))"
    by (simp add: etl_sum_def sum_list_map_nth comp_def)
  also have "\<dots> = (\<Sum>i<w. \<Sum>j<h. f (m ! i ! j))"
    using assms by (simp add: shape2_nth)
  finally show ?thesis .
qed

lemma etl_sum_nth:
  "shape2 w h m \<Longrightarrow> etl_sum m = (\<Sum>i<w. \<Sum>j<h. m ! i ! j)"
  using etl_sum_map [of w h m "\<lambda>x. x"] by simp

lemma hadamard_same: "hadamard a a = map (map (\<lambda>x. x * x)) a"
  by (simp add: hadamard_def zip_same_conv_map comp_def)

lemma etl_sum_squares:
  "shape2 w h m \<Longrightarrow>
   etl_sum (hadamard (sub_scalar m c) (sub_scalar m c)) = (\<Sum>i<w. \<Sum>j<h. (m ! i ! j - c)\<^sup>2)"
  by (simp add: hadamard_same sub_scalar_def comp_def etl_sum_map power2_eq_square)

lemma shape2_map: "shape2 w h (map (map f) m) = shape2 w h m"
  by (simp add: shape2_def list_all_length)

lemma nth_map_map:
  "shape2 w h m \<Longrightarrow> i < w \<Longrightarrow> j < h \<Longrightarrow> map (map f) m ! i ! j = f (m ! i ! j)"
  by (simp add: shape2_nth)

lemma shape2_hadamard:
  "shape2 w h a \<Longrightarrow> shape2 w h b \<Longrightarrow> shape2 w h (hadamard a b)"
  by (simp add: shape2_def hadamard_def list_all_length)

lemma nth_hadamard:
  "shape2 w h a \<Longrightarrow> shape2 w h b \<Longrightarrow> i < w \<Longrightarrow> j < h \<Longrightarrow>
   hadamard a b ! i ! j = a ! i ! j * b ! i ! j"
  by (simp add: hadamard_def shape2_nth)

lemma shape2_sub2:
  "shape2 w h a \<Longrightarrow> shape2 w h b \<Longrightarrow> shape2 w h (sub2 a b)"
  by (simp add: shape2_def sub2_def list_all_length)

lemma nth_sub2:
  "shape2 w h a \<Longrightarrow> shape2 w h b \<Longrightarrow> i < w \<Longrightarrow> j < h \<Longrightarrow>
   sub2 a b ! i ! j = a ! i ! j - b ! i ! j"
  by (simp add: sub2_def shape2_nth)

lemma shape4_hadamard4:
  "shape4 n k w h a \<Longrightarrow> shape4 n k w h b \<Longrightarrow> shape4 n k w h (hadamard4 a b)"
  by (simp add: shape4_def hadamard4_def list_all_length shape2_hadamard)

lemma nth_hadamard4:
  "shape4 n k w h a \<Longrightarrow> shape4 n k w h b \<Longrightarrow> s < n \<Longrightarrow> c < k \<Longrightarrow>
   hadamard4 a b ! s ! c = hadamard (a ! s ! c) (b ! s ! c)"
  by (simp add: hadamard4_def shape4_def list_all_length)

lemma bias_batch_sum_4d_nth:
  assumes "shape4 n k w h x" "c < k"
  shows "bias_batch_sum_4d k x ! c = chan_sum n w h (\<lambda>b i j. x ! b ! c ! i ! j)"
proof -
  have "bias_batch_sum_4d k x ! c = (\<Sum>b<n. etl_sum (x ! b ! c))"
    using assms by (simp add: bias_batch_sum_4d_def sum_list_map_nth shape4_length)
  also have "\<dots> = (\<Sum>b<n. \<Sum>i<w. \<Sum>j<h. x ! b ! c ! i ! j)"
    using assms by (intro sum.cong refl etl_sum_nth shape4_nth(2)) simp_all
  finally show ?thesis by (simp add: chan_sum_def)
qed

lemma length_bias_batch_sum_4d: "length (bias_batch_sum_4d k x) = k"
  by (simp add: bias_batch_sum_4d_def)

lemma length_bias_batch_mean_4d: "length (bias_batch_mean_4d k n x) = k"
  by (simp add: bias_batch_mean_4d_def bias_batch_sum_4d_def)

lemma bias_batch_mean_4d_nth:
  "shape4 n k w h x \<Longrightarrow> c < k \<Longrightarrow>
   bias_batch_mean_4d k s x ! c = chan_sum n w h (\<lambda>b i j. x ! b ! c ! i ! j) / real s"
  by (simp add: bias_batch_mean_4d_def length_bias_batch_sum_4d bias_batch_sum_4d_nth)

section \<open>The training forward pass in closed form\<close>

lemma shape4_for_upto_set_plane2:
  assumes "shape4 n k w h t" "B \<le> n" "\<And>b c. b < B \<Longrightarrow> c < k \<Longrightarrow> shape2 w h (P b c)"
  shows "shape4 n k w h (for_upto B (\<lambda>b. for_upto K (\<lambda>c t. set_plane t b c (P b c))) t)"
  using assms
  by (simp add: for_upto_set_plane2 shape4_length)
     (auto simp: shape4_def list_all_length)

lemma nth_for_upto_set_plane2:
  assumes "shape4 n k w h t" "B \<le> n" "b < B" "c < K" "c < k"
  shows "for_upto B (\<lambda>b. for_upto K (\<lambda>c t. set_plane t b c (P b c))) t ! b ! c = P b c"
  using assms by (simp add: for_upto_set_plane2 shape4_length shape4_nth)

lemma size_t_small: "n < 2 ^ 64 \<Longrightarrow> size_t n = n"
  by (simp add: size_t_def)

lemma shape4_zeros: "shape4 n k w h (map (map (map (map f))) t) = shape4 n k w h t"
  by (simp add: shape4_def shape2_def list_all_length)

lemma train_eq:
  assumes ok: "train_ok l outp inp"
  shows "train_batch_activate_hidden l outp inp =
    (let B = length inp; S = size_t (B * W l * H l); K = Kernels l;
         lm = bias_batch_mean_4d K S inp;
         lv = map (\<lambda>k. (\<Sum>b<B. etl_sum (hadamard (sub_scalar (inp ! b ! k) (lm ! k))
                                                  (sub_scalar (inp ! b ! k) (lm ! k)))) / real S) [0..<K];
         iv = map (\<lambda>v. 1 / sqrt (v + e)) lv
     in Inr (l\<lparr>last_mean := lm, last_var := lv, inv_var := iv,
               input_pre := Some (for_upto B (\<lambda>b. for_upto K (\<lambda>k t.
                  set_plane t b k (scale_by (sub_scalar (inp ! b ! k) (lm ! k)) (iv ! k))))
                  (inherit_if_null (input_pre l) inp)),
               mean := map2 (\<lambda>m x. momentum l * m + (1 - momentum l) * x) (mean l) lm,
               var := map2 (\<lambda>v x. momentum l * v
                                    + (1 - momentum l) * (real (S div (S - 1)) * x)) (var l) lv\<rparr>,
             for_upto B (\<lambda>b. for_upto K (\<lambda>k t. set_plane t b k
               (add_scalar (scale (gamma l ! k) (scale_by (sub_scalar (inp ! b ! k) (lm ! k)) (iv ! k)))
                  (beta l ! k)))) outp))"
proof -
  define B where "B = length inp"
  define K where "K = Kernels l"
  define S where "S = size_t (B * W l * H l)"
  define lm where "lm = bias_batch_mean_4d K S inp"
  define pre0 where "pre0 = inherit_if_null (input_pre l) inp"
  from ok have v: "vectors_ok l" and sh: "shape4 B K (W l) (H l) inp" and S1: "1 < S"
    and hp: "holds_batch B K (W l) (H l) pre0" and ho: "holds_batch B K (W l) (H l) outp"
    by (simp_all add: train_ok_def B_def K_def S_def pre0_def)
  have lv1: "for_upto B (\<lambda>b. for_upto K (\<lambda>k lv.
          lv[k := lv ! k + etl_sum (hadamard (sub_scalar (inp ! b ! k) (lm ! k))
                                             (sub_scalar (inp ! b ! k) (lm ! k)))])) (fill 0 (last_var l))
      = map (\<lambda>k. \<Sum>b<B. etl_sum (hadamard (sub_scalar (inp ! b ! k) (lm ! k))
                                             (sub_scalar (inp ! b ! k) (lm ! k)))) [0..<K]"
    using v unfolding for_upto_acc2
    by (intro nth_equalityI) (simp_all add: fill_def vectors_ok_def K_def)
  have rows: "B \<le> length pre0" "\<forall>b<B. K \<le> length (pre0 ! b)"
    using hp by (auto simp: holds_batch_def shape4_def list_all_length)
  show ?thesis
    unfolding train_batch_activate_hidden_def Let_def
    unfolding B_def [symmetric] K_def [symmetric] S_def [symmetric]
    unfolding lm_def [symmetric] pre0_def [symmetric] lv1
    unfolding normalize_plane_outer [OF rows]
    using v sh S1 hp ho by (simp add: comp_def)
qed

lemma train_returns:
  "train_batch_activate_hidden l outp inp = Inr r \<Longrightarrow> train_ok l outp inp"
  by (auto simp: train_batch_activate_hidden_def train_ok_def Let_def
      split: if_splits prod.splits)

lemma scale_by_sub_scalar:
  "scale_by (sub_scalar m c) d = map (map (\<lambda>x. (x - c) * d)) m"
  by (simp add: scale_by_def sub_scalar_def comp_def)

lemma affine_plane:
  "add_scalar (scale a (scale_by (sub_scalar m c) d)) s = map (map (\<lambda>x. a * ((x - c) * d) + s)) m"
  by (simp add: add_scalar_def scale_def scale_by_def sub_scalar_def comp_def)

lemma train_result:
  assumes ret: "train_batch_activate_hidden l outp inp = Inr (l', out)"
  shows train_frame:
      "gamma l' = gamma l \<and> beta l' = beta l \<and> momentum l' = momentum l \<and>
       bak_gamma l' = bak_gamma l \<and> bak_beta l' = bak_beta l \<and>
       Kernels l' = Kernels l \<and> W l' = W l \<and> H l' = H l"
    and train_vectors_ok: "vectors_ok l'"
    and train_last_mean:
      "k < Kernels l \<Longrightarrow> last_mean l' ! k =
         chan_sum (length inp) (W l) (H l) (\<lambda>b i j. inp ! b ! k ! i ! j)
           / real (size_t (length inp * W l * H l))"
    and train_last_var:
      "k < Kernels l \<Longrightarrow> last_var l' ! k =
         chan_sum (length inp) (W l) (H l) (\<lambda>b i j. (inp ! b ! k ! i ! j - last_mean l' ! k)\<^sup>2)
           / real (size_t (length inp * W l * H l))"
    and train_inv_var:
      "k < Kernels l \<Longrightarrow> inv_var l' ! k = 1 / sqrt (last_var l' ! k + e)"
    and train_input_pre:
      "\<exists>pre. input_pre l' = Some pre \<and>
         shape4 (length (inherit_if_null (input_pre l) inp)) (Kernels l) (W l) (H l) pre \<and>
         (\<forall>b<length inp. \<forall>k<Kernels l. \<forall>i<W l. \<forall>j<H l.
            pre ! b ! k ! i ! j = (inp ! b ! k ! i ! j - last_mean l' ! k) * inv_var l' ! k \<and>
            out ! b ! k ! i ! j = gamma l ! k * pre ! b ! k ! i ! j + beta l ! k) \<and>
         (\<forall>b. length inp \<le> b \<longrightarrow> b < length pre \<longrightarrow>
            pre ! b = inherit_if_null (input_pre l) inp ! b)"
    and train_out_shape: "shape4 (length outp) (Kernels l) (W l) (H l) out"
    and train_mean:
      "k < Kernels l \<Longrightarrow>
         mean l' ! k = momentum l * mean l ! k + (1 - momentum l) * last_mean l' ! k"
    and train_var:
      "k < Kernels l \<Longrightarrow>
         var l' ! k = momentum l * var l ! k
           + (1 - momentum l)
             * (real (size_t (length inp * W l * H l) div (size_t (length inp * W l * H l) - 1))
                * last_var l' ! k)"
proof -
  define B where "B = length inp"
  define K where "K = Kernels l"
  define S where "S = size_t (B * W l * H l)"
  define lm where "lm = bias_batch_mean_4d K S inp"
  define lv where "lv = map (\<lambda>k. (\<Sum>b<B. etl_sum (hadamard (sub_scalar (inp ! b ! k) (lm ! k))
                                                  (sub_scalar (inp ! b ! k) (lm ! k)))) / real S) [0..<K]"
  define iv where "iv = map (\<lambda>v. 1 / sqrt (v + e)) lv"
  define pre0 where "pre0 = inherit_if_null (input_pre l) inp"
  define pre where "pre = for_upto B (\<lambda>b. for_upto K (\<lambda>k t.
                  set_plane t b k (scale_by (sub_scalar (inp ! b ! k) (lm ! k)) (iv ! k)))) pre0"
  have ok: "train_ok l outp inp"
    using ret by (rule train_returns)
  have S: "size_t (length inp * W l * H l) = S"
    by (simp add: S_def B_def)
  from ok have v: "vectors_ok l" and sh: "shape4 B K (W l) (H l) inp" and S1: "1 < S"
    and hp: "holds_batch B K (W l) (H l) pre0" and ho: "holds_batch B K (W l) (H l) outp"
    by (simp_all add: train_ok_def B_def K_def S pre0_def)
  have l': "l' = l\<lparr>last_mean := lm, last_var := lv, inv_var := iv, input_pre := Some pre,
               mean := map2 (\<lambda>m x. momentum l * m + (1 - momentum l) * x) (mean l) lm,
               var := map2 (\<lambda>v x. momentum l * v
                                    + (1 - momentum l) * (real (S div (S - 1)) * x)) (var l) lv\<rparr>"
    and out: "out = for_upto B (\<lambda>b. for_upto K (\<lambda>k t. set_plane t b k
               (add_scalar (scale (gamma l ! k) (scale_by (sub_scalar (inp ! b ! k) (lm ! k)) (iv ! k)))
                  (beta l ! k)))) outp"
    using ret unfolding train_eq [OF ok] Let_def S
    unfolding pre_def pre0_def iv_def lv_def lm_def K_def B_def by simp_all
  have len: "length lm = K" "length lv = K" "length iv = K"
    by (simp_all add: lm_def lv_def iv_def length_bias_batch_mean_4d)
  show "gamma l' = gamma l \<and> beta l' = beta l \<and> momentum l' = momentum l \<and>
       bak_gamma l' = bak_gamma l \<and> bak_beta l' = bak_beta l \<and>
       Kernels l' = Kernels l \<and> W l' = W l \<and> H l' = H l"
    by (simp add: l')
  show "vectors_ok l'"
    using v len by (simp add: l' vectors_ok_def K_def)
  have plane: "shape2 (W l) (H l) (inp ! b ! k)" if "b < B" "k < K" for b k
    using sh that by (rule shape4_nth(2))
  {
    assume k: "k < Kernels l"
    then have kK: "k < K" by (simp add: K_def)
    show "last_mean l' ! k =
         chan_sum (length inp) (W l) (H l) (\<lambda>b i j. inp ! b ! k ! i ! j)
           / real (size_t (length inp * W l * H l))"
      using sh kK by (simp add: l' lm_def bias_batch_mean_4d_nth S_def B_def)
    have "(\<Sum>b<B. etl_sum (hadamard (sub_scalar (inp ! b ! k) (lm ! k))
                                      (sub_scalar (inp ! b ! k) (lm ! k)))) =
          (\<Sum>b<B. \<Sum>i<W l. \<Sum>j<H l. (inp ! b ! k ! i ! j - lm ! k)\<^sup>2)"
      using kK by (intro sum.cong refl etl_sum_squares plane) simp_all
    then have "lv ! k = (\<Sum>b<B. \<Sum>i<W l. \<Sum>j<H l. (inp ! b ! k ! i ! j - lm ! k)\<^sup>2) / real S"
      using kK by (simp add: lv_def)
    then show "last_var l' ! k =
         chan_sum (length inp) (W l) (H l) (\<lambda>b i j. (inp ! b ! k ! i ! j - last_mean l' ! k)\<^sup>2)
           / real (size_t (length inp * W l * H l))"
      by (simp add: l' chan_sum_def S_def B_def)
    show "inv_var l' ! k = 1 / sqrt (last_var l' ! k + e)"
      using kK len by (simp add: l' iv_def)
    show "mean l' ! k = momentum l * mean l ! k + (1 - momentum l) * last_mean l' ! k"
      using kK len v by (simp add: l' vectors_ok_def K_def)
    show "var l' ! k = momentum l * var l ! k
           + (1 - momentum l)
             * (real (size_t (length inp * W l * H l) div (size_t (length inp * W l * H l) - 1))
                * last_var l' ! k)"
      using kK len v by (simp add: l' vectors_ok_def K_def S_def B_def)
  }
  have BK: "B \<le> length pre0" "B \<le> length outp"
    using hp ho by (simp_all add: holds_batch_def)
  have shp: "shape4 (length pre0) K (W l) (H l) pre0" "shape4 (length outp) K (W l) (H l) outp"
    using hp ho by (simp_all add: holds_batch_def)
  have shape_pre: "shape4 (length pre0) K (W l) (H l) pre"
    unfolding pre_def
    by (rule shape4_for_upto_set_plane2 [OF shp(1) BK(1)])
       (simp add: scale_by_sub_scalar shape2_map plane)
  show "shape4 (length outp) (Kernels l) (W l) (H l) out"
    unfolding out K_def [symmetric]
    by (rule shape4_for_upto_set_plane2 [OF shp(2) BK(2)])
       (simp add: affine_plane shape2_map plane)
  have pre_nth: "pre ! b ! k ! i ! j = (inp ! b ! k ! i ! j - lm ! k) * iv ! k"
    if "b < B" "k < K" "i < W l" "j < H l" for b k i j
    using that plane [OF that(1,2)]
    by (simp add: pre_def nth_for_upto_set_plane2 [OF shp(1) BK(1)] scale_by_sub_scalar nth_map_map)
  have out_nth: "out ! b ! k ! i ! j = gamma l ! k * ((inp ! b ! k ! i ! j - lm ! k) * iv ! k) + beta l ! k"
    if "b < B" "k < K" "i < W l" "j < H l" for b k i j
    using that plane [OF that(1,2)]
    by (simp add: out nth_for_upto_set_plane2 [OF shp(2) BK(2)] affine_plane nth_map_map)
  have beyond: "pre ! b = pre0 ! b" if "B \<le> b" "b < length pre" for b
    using that BK(1) shape_pre
    by (simp add: pre_def nth_for_upto_set_plane2_beyond length_for_upto_set_plane2)
  show "\<exists>pre. input_pre l' = Some pre \<and>
         shape4 (length (inherit_if_null (input_pre l) inp)) (Kernels l) (W l) (H l) pre \<and>
         (\<forall>b<length inp. \<forall>k<Kernels l. \<forall>i<W l. \<forall>j<H l.
            pre ! b ! k ! i ! j = (inp ! b ! k ! i ! j - last_mean l' ! k) * inv_var l' ! k \<and>
            out ! b ! k ! i ! j = gamma l ! k * pre ! b ! k ! i ! j + beta l ! k) \<and>
         (\<forall>b. length inp \<le> b \<longrightarrow> b < length pre \<longrightarrow>
            pre ! b = inherit_if_null (input_pre l) inp ! b)"
    using shape_pre pre_nth out_nth beyond
    by (intro exI [of _ pre]) (simp add: l' pre0_def K_def B_def)
qed

section \<open>The inference forward pass\<close>

lemma take_for_upto_set_plane2:
  assumes "holds_batch B K w h t"
  shows "take B (for_upto B (\<lambda>b. for_upto K (\<lambda>k t. set_plane t b k (P b k))) t) =
         map (\<lambda>b. map (P b) [0..<K]) [0..<B]"
proof -
  from assms have B: "B \<le> length t" and sh: "shape4 (length t) K w h t"
    by (simp_all add: holds_batch_def)
  show ?thesis
    using B sh
    by (intro nth_equalityI) (simp_all add: for_upto_set_plane2 shape4_nth)
qed

lemma chan_sum_cong:
  "(\<And>b i j. b < n \<Longrightarrow> i < w \<Longrightarrow> j < h \<Longrightarrow> f b i j = g b i j) \<Longrightarrow>
   chan_sum n w h f = chan_sum n w h g"
  by (simp add: chan_sum_def)

lemma test_eq:
  assumes "vectors_ok l" "shape4 (length inp) (Kernels l) (W l) (H l) inp"
    "holds_batch (length inp) (Kernels l) (W l) (H l) outp" "list_all (\<lambda>v. 0 < v + e) (var l)"
  shows "test_batch_activate_hidden l outp inp =
    Inr (l, for_upto (length inp) (\<lambda>b. for_upto (Kernels l) (\<lambda>k out.
            set_plane out b k
              (add_scalar
                 (scale (gamma l ! k)
                    (scale_by (sub_scalar (inp ! b ! k) (mean l ! k)) (map (\<lambda>v. 1 / sqrt (v + e)) (var l) ! k)))
                 (beta l ! k)))) outp)"
  using assms by (simp add: test_batch_activate_hidden_def Let_def vectors_ok_def)

lemma test_returns:
  assumes "test_batch_activate_hidden l outp inp = Inr r"
  shows "shape4 (length inp) (Kernels l) (W l) (H l) inp"
    and "holds_batch (length inp) (Kernels l) (W l) (H l) outp"
    and "list_all (\<lambda>v. 0 < v + e) (var l)"
    and "r = (l, for_upto (length inp) (\<lambda>b. for_upto (Kernels l) (\<lambda>k out.
            set_plane out b k
              (add_scalar
                 (scale (gamma l ! k)
                    (scale_by (sub_scalar (inp ! b ! k) (mean l ! k)) (map (\<lambda>v. 1 / sqrt (v + e)) (var l) ! k)))
                 (beta l ! k)))) outp)"
  using assms by (auto simp: test_batch_activate_hidden_def Let_def split: if_splits)

text \<open>
  Claim C7.  For every input of shape \<open>[B, K, W, H]\<close> and every layer whose vectors
  have \<open>K\<close> elements and whose running variances satisfy \<open>var + e > 0\<close>, the
  inference forward pass returns, and writes
  \<open>output[b,k] = gamma[k] * ((input[b,k] - mean[k]) * (1 / sqrt (var[k] + e))) + beta[k]\<close>
  for every sample \<open>b\<close> and channel \<open>k\<close>, element by element.  \<open>mean\<close> and \<open>var\<close> are
  the running statistics; the result is the same whatever the batch statistics
  \<open>last_mean\<close>, \<open>last_var\<close> and the caches \<open>inv_var\<close>, \<open>input_pre\<close> hold, so
  \<open>1 / sqrt (var + e)\<close> is computed in the call and not read from \<open>inv_var\<close>.
\<close>

theorem inference_formula:
  assumes "vectors_ok l"
    and "shape4 B (Kernels l) (W l) (H l) inp"
    and "holds_batch B (Kernels l) (W l) (H l) outp"
    and "list_all (\<lambda>v. 0 < v + e) (var l)"
  shows "\<exists>out. test_batch_activate_hidden l outp inp = Inr (l, out) \<and>
           (\<forall>b<B. \<forall>k<Kernels l. \<forall>i<W l. \<forall>j<H l.
              out ! b ! k ! i ! j =
                gamma l ! k * ((inp ! b ! k ! i ! j - mean l ! k) * (1 / sqrt (var l ! k + e)))
                  + beta l ! k) \<and>
           (\<forall>lm lv iv pre.
              test_batch_activate_hidden
                (l\<lparr>last_mean := lm, last_var := lv, inv_var := iv, input_pre := pre\<rparr>) outp inp =
              Inr (l\<lparr>last_mean := lm, last_var := lv, inv_var := iv, input_pre := pre\<rparr>, out))"
proof -
  have B: "length inp = B"
    using assms(2) by (rule shape4_length)
  let ?P = "\<lambda>b k. add_scalar
                 (scale (gamma l ! k)
                    (scale_by (sub_scalar (inp ! b ! k) (mean l ! k)) (map (\<lambda>v. 1 / sqrt (v + e)) (var l) ! k)))
                 (beta l ! k)"
  let ?out = "for_upto B (\<lambda>b. for_upto (Kernels l) (\<lambda>k out. set_plane out b k (?P b k))) outp"
  have eq: "test_batch_activate_hidden l outp inp = Inr (l, ?out)"
    using test_eq [of l inp outp] assms by (simp add: B)
  have BK: "B \<le> length outp" and sh: "shape4 (length outp) (Kernels l) (W l) (H l) outp"
    using assms(3) by (simp_all add: holds_batch_def)
  have nth: "?out ! b ! k ! i ! j =
      gamma l ! k * ((inp ! b ! k ! i ! j - mean l ! k) * (1 / sqrt (var l ! k + e))) + beta l ! k"
    if "b < B" "k < Kernels l" "i < W l" "j < H l" for b k i j
  proof -
    have "shape2 (W l) (H l) (inp ! b ! k)"
      using assms(2) that(1,2) by (rule shape4_nth(2))
    moreover have "k < length (var l)"
      using assms(1) that(2) by (simp add: vectors_ok_def)
    ultimately show ?thesis
      using that
      by (simp add: nth_for_upto_set_plane2 [OF sh BK] affine_plane nth_map_map)
  qed
  have indep: "test_batch_activate_hidden
                (l\<lparr>last_mean := lm, last_var := lv, inv_var := iv, input_pre := pre\<rparr>) outp inp =
              Inr (l\<lparr>last_mean := lm, last_var := lv, inv_var := iv, input_pre := pre\<rparr>, ?out)"
    for lm lv iv pre
    using assms by (simp add: test_batch_activate_hidden_def Let_def B vectors_ok_def)
  show ?thesis
    using eq nth indep by (intro exI [of _ ?out]) simp
qed

section \<open>Claims about the forward passes\<close>

lemma train_returns_iff:
  "(\<exists>r. train_batch_activate_hidden l outp inp = Inr r) \<longleftrightarrow> train_ok l outp inp"
proof
  assume "\<exists>r. train_batch_activate_hidden l outp inp = Inr r"
  then show "train_ok l outp inp"
    by (auto dest: train_returns)
next
  assume "train_ok l outp inp"
  then show "\<exists>r. train_batch_activate_hidden l outp inp = Inr r"
    by (simp add: train_eq Let_def)
qed

lemma train_okI:
  assumes "vectors_ok l" "shape4 B (Kernels l) (W l) (H l) inp"
    and "1 < B * W l * H l" "B * W l * H l < 2 ^ 64"
    and "case input_pre l of None \<Rightarrow> True | Some p \<Rightarrow> holds_batch B (Kernels l) (W l) (H l) p"
    and "holds_batch B (Kernels l) (W l) (H l) outp"
  shows "train_ok l outp inp"
proof -
  have B: "length inp = B"
    using assms(2) by (rule shape4_length)
  have "holds_batch B (Kernels l) (W l) (H l) (inherit_if_null (input_pre l) inp)"
    using assms(2,5)
    by (cases "input_pre l") (simp_all add: inherit_if_null_def holds_batch_def shape4_zeros B)
  then show ?thesis
    using assms by (simp add: train_ok_def B size_t_small)
qed

text \<open>
  Claim C5.  For every input of shape \<open>[B, K, W, H]\<close> with \<open>S = B * W * H\<close>, on a
  layer whose vectors have \<open>K\<close> elements, the training forward pass returns and, for
  each channel \<open>k\<close>: \<open>last_mean[k]\<close> is the mean of the input over the batch and the
  spatial axes; \<open>last_var[k]\<close> is the biased variance
  \<open>(1/S) * \<Sum> (input[b,k] - last_mean[k])\<^sup>2\<close>; \<open>inv_var[k] = 1 / sqrt (last_var[k] + e)\<close>;
  \<open>input_pre[b,k] = (input[b,k] - last_mean[k]) * inv_var[k]\<close>; and
  \<open>output[b,k] = gamma[k] * input_pre[b,k] + beta[k]\<close>.  The caller's obligations are
  hypotheses: \<open>S > 1\<close> (the last statement of the method divides by \<open>S - 1\<close>),
  \<open>S\<close> fits a \<^verbatim>\<open>size_t\<close>, and the buffers, \<open>input_pre\<close> if it already has memory and
  \<open>output\<close>, hold \<open>B\<close> samples of the layer's dimensions.
\<close>

theorem train_forward_formulas:
  assumes "vectors_ok l"
    and "shape4 B (Kernels l) (W l) (H l) inp"
    and "1 < B * W l * H l" and "B * W l * H l < 2 ^ 64"
    and "case input_pre l of None \<Rightarrow> True | Some p \<Rightarrow> holds_batch B (Kernels l) (W l) (H l) p"
    and "holds_batch B (Kernels l) (W l) (H l) outp"
    and "k < Kernels l"
  shows "\<exists>l' out pre.
           train_batch_activate_hidden l outp inp = Inr (l', out) \<and> input_pre l' = Some pre \<and>
           last_mean l' ! k =
             chan_sum B (W l) (H l) (\<lambda>b i j. inp ! b ! k ! i ! j) / real (B * W l * H l) \<and>
           last_var l' ! k =
             chan_sum B (W l) (H l) (\<lambda>b i j. (inp ! b ! k ! i ! j - last_mean l' ! k)\<^sup>2)
               / real (B * W l * H l) \<and>
           inv_var l' ! k = 1 / sqrt (last_var l' ! k + e) \<and>
           (\<forall>b<B. \<forall>i<W l. \<forall>j<H l.
              pre ! b ! k ! i ! j = (inp ! b ! k ! i ! j - last_mean l' ! k) * inv_var l' ! k \<and>
              out ! b ! k ! i ! j = gamma l ! k * pre ! b ! k ! i ! j + beta l ! k)"
proof -
  have B: "length inp = B"
    using assms(2) by (rule shape4_length)
  have ok: "train_ok l outp inp"
    using assms(1-6) by (rule train_okI)
  then obtain l' out where ret: "train_batch_activate_hidden l outp inp = Inr (l', out)"
    using train_returns_iff [of l outp inp] by auto
  from train_input_pre [OF ret] obtain pre where pre: "input_pre l' = Some pre"
    and nth: "\<forall>b<length inp. \<forall>k<Kernels l. \<forall>i<W l. \<forall>j<H l.
            pre ! b ! k ! i ! j = (inp ! b ! k ! i ! j - last_mean l' ! k) * inv_var l' ! k \<and>
            out ! b ! k ! i ! j = gamma l ! k * pre ! b ! k ! i ! j + beta l ! k"
    by blast
  have S: "size_t (B * W l * H l) = B * W l * H l"
    using assms(4) by (simp add: size_t_small)
  have m: "last_mean l' ! k =
             chan_sum B (W l) (H l) (\<lambda>b i j. inp ! b ! k ! i ! j) / real (B * W l * H l)"
    using train_last_mean [OF ret assms(7)] by (simp only: S B)
  have v: "last_var l' ! k =
             chan_sum B (W l) (H l) (\<lambda>b i j. (inp ! b ! k ! i ! j - last_mean l' ! k)\<^sup>2)
               / real (B * W l * H l)"
    using train_last_var [OF ret assms(7)] by (simp only: S B)
  have cells: "\<forall>b<B. \<forall>i<W l. \<forall>j<H l.
              pre ! b ! k ! i ! j = (inp ! b ! k ! i ! j - last_mean l' ! k) * inv_var l' ! k \<and>
              out ! b ! k ! i ! j = gamma l ! k * pre ! b ! k ! i ! j + beta l ! k"
    using nth assms(7) by (simp only: B) blast
  show ?thesis
    using ret pre m v train_inv_var [OF ret assms(7)] cells by blast
qed

text \<open>
  Claim C10.  A training forward pass that returns leaves \<open>gamma\<close>, \<open>beta\<close>,
  \<open>momentum\<close>, \<open>Kernels\<close>, \<open>W\<close> and \<open>H\<close> as they were; the new layer is the old one
  with new values in \<open>mean\<close>, \<open>var\<close>, \<open>last_mean\<close>, \<open>last_var\<close>, \<open>inv_var\<close> and
  \<open>input_pre\<close>, and in no other field.
\<close>

theorem train_frame_fields:
  assumes "train_batch_activate_hidden l outp inp = Inr (l', out)"
  shows "gamma l' = gamma l \<and> beta l' = beta l \<and> momentum l' = momentum l \<and>
         Kernels l' = Kernels l \<and> W l' = W l \<and> H l' = H l \<and>
         l' = l\<lparr>mean := mean l', var := var l', last_mean := last_mean l',
                last_var := last_var l', inv_var := inv_var l', input_pre := input_pre l'\<rparr>"
  using train_frame [OF assms] by simp

text \<open>
  Claim C9.  The inference forward pass hands the layer back with every field as it was
  (\<open>gamma\<close>, \<open>beta\<close>, \<open>mean\<close>, \<open>var\<close>, \<open>last_mean\<close>, \<open>last_var\<close>, \<open>inv_var\<close>,
  \<open>input_pre\<close>, \<open>momentum\<close>: the whole record).  So two inference passes in
  succession on the same input give the same output: the \<open>B\<close> samples written are
  equal whatever buffers the two calls write to, and the whole buffers are equal when
  the two calls are given the same buffer.
\<close>

theorem inference_frame:
  assumes "test_batch_activate_hidden l outp inp = Inr (l1, out1)"
    and "test_batch_activate_hidden l1 outp' inp = Inr (l2, out2)"
  shows "l1 = l \<and> l2 = l \<and> take (length inp) out2 = take (length inp) out1 \<and>
         (outp' = outp \<longrightarrow> out2 = out1)"
proof -
  note r1 = test_returns [OF assms(1)]
  from r1(4) have l1: "l1 = l"
    by simp
  note r2 = test_returns [OF assms(2) [unfolded l1]]
  from r2(4) have l2: "l2 = l"
    by simp
  have "take (length inp) out1 = take (length inp) out2"
    using r1(4) r2(4)
    by (simp add: take_for_upto_set_plane2 [OF r1(2)] take_for_upto_set_plane2 [OF r2(2)])
  then show ?thesis
    using assms l1 l2 by auto
qed

section \<open>The concrete scenario\<close>

lemma for_upto_numeral: "for_upto (numeral n) body s = for_upto (Suc (pred_numeral n)) body s"
  by (simp add: numeral_eq_Suc)

lemmas example_defs = example_layer_def example_input_def example_buffer_def fill_def Let_def

lemmas shape_defs = vectors_ok_def shape4_def shape2_def holds_batch_def

lemma e_pos: "0 < e"
  by (simp add: e_def)

text \<open>Claim C7 on the concrete scenario.\<close>

theorem inference_formula_witness:
  "vectors_ok example_layer \<and>
   shape4 2 (Kernels example_layer) (W example_layer) (H example_layer) example_input \<and>
   holds_batch 2 (Kernels example_layer) (W example_layer) (H example_layer) example_buffer \<and>
   list_all (\<lambda>v. 0 < v + e) (var example_layer) \<and>
   (\<exists>out. test_batch_activate_hidden example_layer example_buffer example_input
             = Inr (example_layer, out) \<and>
          out ! 1 ! 0 ! 0 ! 0 = 4 / sqrt e)"
proof -
  have h: "vectors_ok example_layer"
    "shape4 2 (Kernels example_layer) (W example_layer) (H example_layer) example_input"
    "holds_batch 2 (Kernels example_layer) (W example_layer) (H example_layer) example_buffer"
    "list_all (\<lambda>v. 0 < v + e) (var example_layer)"
    by (simp_all add: example_defs shape_defs e_pos)
  from inference_formula [OF h] obtain out where
    "test_batch_activate_hidden example_layer example_buffer example_input = Inr (example_layer, out)"
    and "\<forall>b<2. \<forall>k<Kernels example_layer. \<forall>i<W example_layer. \<forall>j<H example_layer.
              out ! b ! k ! i ! j =
                gamma example_layer ! k * ((example_input ! b ! k ! i ! j - mean example_layer ! k)
                   * (1 / sqrt (var example_layer ! k + e)))
                  + beta example_layer ! k"
    by blast
  then have "test_batch_activate_hidden example_layer example_buffer example_input = Inr (example_layer, out)
     \<and> out ! 1 ! 0 ! 0 ! 0 = 4 / sqrt e"
    by (simp add: example_defs)
  with h show ?thesis
    by blast
qed

lemmas etl_defs =
  bias_batch_mean_4d_def bias_batch_sum_4d_def etl_sum_def sub_scalar_def add_scalar_def
  scale_def scale_by_def hadamard_def sub2_def hadamard4_def inherit_if_null_def
  normalize_plane_def set_plane_def size_t_def force_temporary_dim_only_def

lemma example_train:
  "train_batch_activate_hidden example_layer example_buffer example_input =
     Inr (example_layer
            \<lparr>last_mean := [3], last_var := [1], inv_var := [1 / sqrt (1 + e)],
             input_pre := Some [[[[- (1 / sqrt (1 + e))]]], [[[1 / sqrt (1 + e)]]]],
             mean := [3 / 10], var := [1 / 5]\<rparr>,
          [[[[- (1 / sqrt (1 + e))]]], [[[1 / sqrt (1 + e)]]]])"
  by (simp add: train_batch_activate_hidden_def example_defs shape_defs etl_defs for_upto_numeral)

lemma example_test:
  "test_batch_activate_hidden example_layer example_buffer example_input =
     Inr (example_layer, [[[[2 / sqrt e]]], [[[4 / sqrt e]]]])"
  by (simp add: test_batch_activate_hidden_def example_defs shape_defs etl_defs for_upto_numeral e_pos)

lemma example_test3:
  "test_batch_activate_hidden example_layer batch3_buffer example_input =
     Inr (example_layer, [[[[2 / sqrt e]]], [[[4 / sqrt e]]], [[[0]]]])"
  by (simp add: test_batch_activate_hidden_def example_defs batch3_input_def batch3_buffer_def
      shape_defs etl_defs for_upto_numeral e_pos)

lemma inv_sqrt_near_1: "\<bar>1 / sqrt (1 + e) - 1\<bar> < 1 / 10 ^ 8"
proof -
  have e: "0 < e" "e < 1"
    by (simp_all add: e_def)
  have 1: "1 < sqrt (1 + e)"
    using e by simp
  have "1 + e < (1 + e)\<^sup>2"
    by (simp add: e_def power2_eq_square)
  then have "sqrt (1 + e) < 1 + e"
    using e by (intro real_less_lsqrt) simp_all
  then have "1 / (1 + e) < 1 / sqrt (1 + e)"
    using 1 by (simp add: frac_less2)
  moreover have "1 - e < 1 / (1 + e)"
    using e by (simp add: field_simps)
  moreover have "1 / sqrt (1 + e) < 1"
    using 1 by simp
  ultimately show ?thesis
    by (simp add: e_def abs_if)
qed

text \<open>
  Claim C4.  \<open>K = 1\<close>, \<open>W = 1\<close>, \<open>H = 1\<close>, \<open>B = 2\<close>, input \<open>[[2.0], [4.0]]\<close>,
  \<open>gamma = 1\<close>, \<open>beta = 0\<close>, \<open>momentum = 0.9\<close>, running mean and variance \<open>0\<close>.  One
  training forward pass returns with \<open>last_mean = 3\<close>, \<open>last_var = 1\<close>,
  \<open>inv_var = 1 / sqrt (1 + 1e-8)\<close>, \<open>input_pre\<close> and the output both
  \<open>[[- inv_var], [inv_var]]\<close>, which is \<open>[[-1], [1]]\<close> to within \<open>1e-8\<close>, and the
  running variance \<open>0.9 * 0 + 0.1 * 2 * 1 = 0.2\<close>: with \<open>S = 2\<close> the integer quotient
  \<open>S / (S - 1)\<close> is \<open>2\<close>.
\<close>

theorem concrete_scenario:
  "gamma example_layer = [1] \<and> beta example_layer = [0] \<and> momentum example_layer = 9 / 10 \<and>
   mean example_layer = [0] \<and> var example_layer = [0] \<and>
   train_batch_activate_hidden example_layer example_buffer [[[[2]]], [[[4]]]] =
     Inr (example_layer
            \<lparr>last_mean := [3], last_var := [1], inv_var := [1 / sqrt (1 + 1 / 10 ^ 8)],
             input_pre := Some [[[[- (1 / sqrt (1 + 1 / 10 ^ 8))]]], [[[1 / sqrt (1 + 1 / 10 ^ 8)]]]],
             mean := [9 / 10 * 0 + 1 / 10 * 3], var := [2 / 10]\<rparr>,
          [[[[- (1 / sqrt (1 + 1 / 10 ^ 8))]]], [[[1 / sqrt (1 + 1 / 10 ^ 8)]]]]) \<and>
   \<bar>1 / sqrt (1 + 1 / 10 ^ 8) - 1\<bar> < (1 / 10 ^ 8 :: real) \<and>
   \<bar>- (1 / sqrt (1 + 1 / 10 ^ 8)) - (- 1)\<bar> < (1 / 10 ^ 8 :: real) \<and>
   (2 / 10 :: real) = 9 / 10 * 0 + 1 / 10 * (real (2 div (2 - 1)) * 1)"
  using example_train inv_sqrt_near_1
  by (simp add: example_defs e_def)

section \<open>Gradients and the backward pass\<close>

lemma nth_scale_by:
  "shape2 w h m \<Longrightarrow> i < w \<Longrightarrow> j < h \<Longrightarrow> scale_by m c ! i ! j = m ! i ! j * c"
  by (simp add: scale_by_def shape2_nth)

lemma shape2_scale_by: "shape2 w h (scale_by m c) = shape2 w h m"
  by (simp add: scale_by_def shape2_map)

lemma shape2_scale: "shape2 w h (scale c m) = shape2 w h m"
  by (simp add: scale_def shape2_map)

lemma nth_scale:
  "shape2 w h m \<Longrightarrow> i < w \<Longrightarrow> j < h \<Longrightarrow> scale c m ! i ! j = c * m ! i ! j"
  by (simp add: scale_def shape2_nth)

lemma shape2_sub_scalar: "shape2 w h (sub_scalar m c) = shape2 w h m"
  by (simp add: sub_scalar_def shape2_map)

lemma nth_sub_scalar:
  "shape2 w h m \<Longrightarrow> i < w \<Longrightarrow> j < h \<Longrightarrow> sub_scalar m c ! i ! j = m ! i ! j - c"
  by (simp add: sub_scalar_def shape2_nth)

text \<open>
  Claim C8.  On a layer whose cache \<open>input_pre\<close> has the shape \<open>[B, K, W, H]\<close> of the
  context's \<open>errors\<close> (as a matching training forward pass leaves it),
  \<open>compute_gradients\<close> returns with
  \<open>w_grad[k] = \<Sum> input_pre[b,k] * errors[b,k]\<close> and \<open>b_grad[k] = \<Sum> errors[b,k]\<close>, the sums
  over the batch and the spatial axes.  It writes to the context only (the other fields
  of the context stay), and hands the layer back as it was, \<open>gamma\<close> and \<open>beta\<close>
  included.
\<close>

theorem gradients_formula:
  assumes "input_pre l = Some pre"
    and "shape4 B (Kernels l) (W l) (H l) pre"
    and "shape4 B (Kernels l) (W l) (H l) (errors ctx)"
    and "length (w_grad ctx) = Kernels l" and "length (b_grad ctx) = Kernels l"
    and "k < Kernels l"
  shows "\<exists>ctx'. compute_gradients l ctx = Inr (l, ctx') \<and>
           w_grad ctx' ! k =
             chan_sum B (W l) (H l) (\<lambda>b i j. pre ! b ! k ! i ! j * errors ctx ! b ! k ! i ! j) \<and>
           b_grad ctx' ! k = chan_sum B (W l) (H l) (\<lambda>b i j. errors ctx ! b ! k ! i ! j) \<and>
           input ctx' = input ctx \<and> output ctx' = output ctx \<and> errors ctx' = errors ctx"
proof -
  let ?K = "Kernels l"
  let ?ctx = "ctx\<lparr>w_grad := bias_batch_sum_4d ?K (hadamard4 pre (errors ctx)),
                  b_grad := bias_batch_sum_4d ?K (errors ctx)\<rparr>"
  have B: "length (errors ctx) = B"
    using assms(3) by (rule shape4_length)
  have eq: "compute_gradients l ctx = Inr (l, ?ctx)"
    using assms by (simp add: compute_gradients_def Let_def B)
  have sh: "shape4 B ?K (W l) (H l) (hadamard4 pre (errors ctx))"
    using assms(2,3) by (rule shape4_hadamard4)
  have "bias_batch_sum_4d ?K (hadamard4 pre (errors ctx)) ! k =
          chan_sum B (W l) (H l) (\<lambda>b i j. hadamard4 pre (errors ctx) ! b ! k ! i ! j)"
    using sh assms(6) by (rule bias_batch_sum_4d_nth)
  also have "\<dots> = chan_sum B (W l) (H l) (\<lambda>b i j. pre ! b ! k ! i ! j * errors ctx ! b ! k ! i ! j)"
  proof (rule chan_sum_cong)
    fix b i j
    assume b: "b < B" and i: "i < W l" and j: "j < H l"
    have "shape2 (W l) (H l) (pre ! b ! k)" "shape2 (W l) (H l) (errors ctx ! b ! k)"
      using assms(2,3,6) b by (auto intro: shape4_nth(2))
    then show "hadamard4 pre (errors ctx) ! b ! k ! i ! j =
               pre ! b ! k ! i ! j * errors ctx ! b ! k ! i ! j"
      using assms(2,3,6) b i j by (simp add: nth_hadamard4 nth_hadamard)
  qed
  finally have w: "w_grad ?ctx ! k =
      chan_sum B (W l) (H l) (\<lambda>b i j. pre ! b ! k ! i ! j * errors ctx ! b ! k ! i ! j)"
    by simp
  have b: "b_grad ?ctx ! k = chan_sum B (W l) (H l) (\<lambda>b i j. errors ctx ! b ! k ! i ! j)"
    using bias_batch_sum_4d_nth [OF assms(3,6)] by simp
  show ?thesis
    using eq w b by (intro exI [of _ ?ctx]) simp
qed

lemma backward_result:
  assumes pre: "input_pre l = Some pre"
    and shp: "shape4 B (Kernels l) (W l) (H l) pre"
    and she: "shape4 B (Kernels l) (W l) (H l) (errors ctx)"
    and B: "length (input ctx) = B"
    and lens: "length (gamma l) = Kernels l" "length (inv_var l) = Kernels l"
    and buf: "holds_batch B (Kernels l) (W l) (H l) outp"
    and S: "0 < B * W l * H l" "B * W l * H l < 2 ^ 64"
  shows "\<exists>g. backward_batch l outp ctx = Inr (l, g) \<and>
           (\<forall>b<B. \<forall>k<Kernels l. \<forall>i<W l. \<forall>j<H l.
              g ! b ! k ! i ! j =
                inv_var l ! k / real (B * W l * H l)
                * (real (B * W l * H l) * (errors ctx ! b ! k ! i ! j * gamma l ! k)
                   - chan_sum B (W l) (H l) (\<lambda>b i j. errors ctx ! b ! k ! i ! j * gamma l ! k)
                   - pre ! b ! k ! i ! j
                     * chan_sum B (W l) (H l)
                         (\<lambda>b i j. errors ctx ! b ! k ! i ! j * gamma l ! k * pre ! b ! k ! i ! j)))"
proof -
  define K where "K = Kernels l"
  define S where "S = B * W l * H l"
  define dxhat where "dxhat = for_upto B (\<lambda>b. for_upto K (\<lambda>k d.
                          set_plane d b k (scale_by (errors ctx ! b ! k) (gamma l ! k))))
                          (force_temporary_dim_only (errors ctx))"
  define dxhat_l where "dxhat_l = bias_batch_sum_4d K dxhat"
  define dxhat_xhat_l where "dxhat_xhat_l = bias_batch_sum_4d K (hadamard4 dxhat pre)"
  define g where "g = for_upto B (\<lambda>b. for_upto K (\<lambda>k out.
                set_plane out b k
                  (scale ((1 / real S) * inv_var l ! k)
                     (sub2 (sub_scalar (scale (real S) (dxhat ! b ! k)) (dxhat_l ! k))
                           (scale_by (pre ! b ! k) (dxhat_xhat_l ! k)))))) outp"
  note shp' = shp [folded K_def] and she' = she [folded K_def]
  have St: "size_t (B * W l * H l) = S"
    using S(2) by (simp add: size_t_small S_def)
  have eq: "backward_batch l outp ctx = Inr (l, g)"
    using pre shp she lens buf S(1)
    unfolding backward_batch_def Let_def B St
    unfolding g_def dxhat_xhat_l_def dxhat_l_def dxhat_def K_def
    by (simp add: S_def)
  have eplane: "shape2 (W l) (H l) (errors ctx ! b ! k)" if "b < B" "k < K" for b k
    using she' that by (rule shape4_nth(2))
  have pplane: "shape2 (W l) (H l) (pre ! b ! k)" if "b < B" "k < K" for b k
    using shp' that by (rule shape4_nth(2))
  have sh0: "shape4 B K (W l) (H l) (force_temporary_dim_only (errors ctx))"
    using she' by (simp add: force_temporary_dim_only_def shape4_zeros)
  have shd: "shape4 B K (W l) (H l) dxhat"
    unfolding dxhat_def
    by (rule shape4_for_upto_set_plane2 [OF sh0]) (simp_all add: shape2_scale_by eplane)
  have dplane: "dxhat ! b ! k = scale_by (errors ctx ! b ! k) (gamma l ! k)" if "b < B" "k < K" for b k
    unfolding dxhat_def using that by (simp add: nth_for_upto_set_plane2 [OF sh0])
  have dcell: "dxhat ! b ! k ! i ! j = errors ctx ! b ! k ! i ! j * gamma l ! k"
    if "b < B" "k < K" "i < W l" "j < H l" for b k i j
    using that by (simp add: dplane nth_scale_by [OF eplane])
  have dl: "dxhat_l ! k = chan_sum B (W l) (H l) (\<lambda>b i j. errors ctx ! b ! k ! i ! j * gamma l ! k)"
    if "k < K" for k
    unfolding dxhat_l_def bias_batch_sum_4d_nth [OF shd that]
    using that by (intro chan_sum_cong) (simp add: dcell)
  have shdp: "shape4 B K (W l) (H l) (hadamard4 dxhat pre)"
    using shd shp' by (rule shape4_hadamard4)
  have dxl: "dxhat_xhat_l ! k =
      chan_sum B (W l) (H l) (\<lambda>b i j. errors ctx ! b ! k ! i ! j * gamma l ! k * pre ! b ! k ! i ! j)"
    if "k < K" for k
    unfolding dxhat_xhat_l_def bias_batch_sum_4d_nth [OF shdp that]
  proof (rule chan_sum_cong)
    fix b i j
    assume *: "b < B" "i < W l" "j < H l"
    have "shape2 (W l) (H l) (dxhat ! b ! k)"
      using shd *(1) that by (rule shape4_nth(2))
    then show "hadamard4 dxhat pre ! b ! k ! i ! j =
        errors ctx ! b ! k ! i ! j * gamma l ! k * pre ! b ! k ! i ! j"
      using * that
      by (simp add: nth_hadamard4 [OF shd shp'] nth_hadamard [OF _ pplane] dcell)
  qed
  have BK: "B \<le> length outp" and sho: "shape4 (length outp) K (W l) (H l) outp"
    using buf by (simp_all add: holds_batch_def K_def)
  have cell: "g ! b ! k ! i ! j =
                inv_var l ! k / real S
                * (real S * (errors ctx ! b ! k ! i ! j * gamma l ! k)
                   - chan_sum B (W l) (H l) (\<lambda>b i j. errors ctx ! b ! k ! i ! j * gamma l ! k)
                   - pre ! b ! k ! i ! j
                     * chan_sum B (W l) (H l)
                         (\<lambda>b i j. errors ctx ! b ! k ! i ! j * gamma l ! k * pre ! b ! k ! i ! j))"
    if "b < B" "k < K" "i < W l" "j < H l" for b k i j
  proof -
    have d: "shape2 (W l) (H l) (dxhat ! b ! k)"
      using shd that(1,2) by (rule shape4_nth(2))
    have p: "shape2 (W l) (H l) (pre ! b ! k)"
      using that(1,2) by (rule pplane)
    have 1: "shape2 (W l) (H l) (sub_scalar (scale (real S) (dxhat ! b ! k)) (dxhat_l ! k))"
      using d by (simp add: shape2_sub_scalar shape2_scale)
    have 2: "shape2 (W l) (H l) (scale_by (pre ! b ! k) (dxhat_xhat_l ! k))"
      using p by (simp add: shape2_scale_by)
    have 3: "shape2 (W l) (H l) (scale (real S) (dxhat ! b ! k))"
      using d by (simp add: shape2_scale)
    have gk: "g ! b ! k = scale ((1 / real S) * inv_var l ! k)
                     (sub2 (sub_scalar (scale (real S) (dxhat ! b ! k)) (dxhat_l ! k))
                           (scale_by (pre ! b ! k) (dxhat_xhat_l ! k)))"
      unfolding g_def using that by (simp add: nth_for_upto_set_plane2 [OF sho BK])
    have "g ! b ! k ! i ! j =
        (1 / real S) * inv_var l ! k
        * (real S * dxhat ! b ! k ! i ! j - dxhat_l ! k - pre ! b ! k ! i ! j * dxhat_xhat_l ! k)"
      unfolding gk
      by (simp only: nth_scale [OF shape2_sub2 [OF 1 2] that(3,4)] nth_sub2 [OF 1 2 that(3,4)]
          nth_sub_scalar [OF 3 that(3,4)] nth_scale [OF d that(3,4)] nth_scale_by [OF p that(3,4)])
    then show ?thesis
      using that by (simp add: dcell dl dxl)
  qed
  show ?thesis
    using eq cell by (intro exI [of _ g]) (simp add: K_def S_def)
qed

lemma backward_running_stats:
  "backward_batch (l\<lparr>mean := m, var := v\<rparr>) outp ctx =
     map_sum id (\<lambda>(l', g). (l'\<lparr>mean := m, var := v\<rparr>, g)) (backward_batch l outp ctx)"
  by (simp add: backward_batch_def Let_def split: option.splits)

text \<open>
  Claim C6.  A backward pass right after a training forward pass on the batch \<open>inp\<close> of
  \<open>B\<close> samples (the context holds that input and errors of its shape; the cache
  \<open>input_pre\<close> had no memory before, or memory for exactly \<open>B\<close> samples) returns the
  gradient
  \<open>gradInput[b,k] = (inv_var[k] / S) * (S * dxhat[b,k] - dxhat_sum[k] - input_pre[b,k] * dxhat_dot_xhat[k])\<close>
  with \<open>S = B * W * H\<close>, \<open>dxhat[b,k] = errors[b,k] * gamma[k]\<close>, \<open>dxhat_sum[k]\<close> and
  \<open>dxhat_dot_xhat[k]\<close> the sums of \<open>dxhat\<close> and of \<open>dxhat * input_pre\<close> over the batch and
  the spatial axes.  \<open>input_pre\<close> and \<open>inv_var\<close> are the fields that forward pass wrote,
  \<open>(inp - last_mean) * inv_var\<close> and \<open>1 / sqrt (last_var + e)\<close>; the running statistics
  \<open>mean\<close> and \<open>var\<close> have no influence on the result.
\<close>

theorem backward_formula:
  assumes fwd: "train_batch_activate_hidden l0 buf inp = Inr (l, out)"
    and cache: "case input_pre l0 of None \<Rightarrow> True | Some p \<Rightarrow> length p = B"
    and B: "length inp = B"
    and ctx: "input ctx = inp" "shape4 B (Kernels l) (W l) (H l) (errors ctx)"
    and gbuf: "holds_batch B (Kernels l) (W l) (H l) gbuf"
    and small: "B * W l * H l < 2 ^ 64"
  shows "\<exists>g pre.
           backward_batch l gbuf ctx = Inr (l, g) \<and> input_pre l = Some pre \<and>
           (\<forall>b<B. \<forall>k<Kernels l. \<forall>i<W l. \<forall>j<H l.
              g ! b ! k ! i ! j =
                inv_var l ! k / real (B * W l * H l)
                * (real (B * W l * H l) * (errors ctx ! b ! k ! i ! j * gamma l ! k)
                   - chan_sum B (W l) (H l) (\<lambda>b i j. errors ctx ! b ! k ! i ! j * gamma l ! k)
                   - pre ! b ! k ! i ! j
                     * chan_sum B (W l) (H l)
                         (\<lambda>b i j. errors ctx ! b ! k ! i ! j * gamma l ! k * pre ! b ! k ! i ! j)) \<and>
              pre ! b ! k ! i ! j = (inp ! b ! k ! i ! j - last_mean l ! k) * inv_var l ! k \<and>
              inv_var l ! k = 1 / sqrt (last_var l ! k + e)) \<and>
           (\<forall>m v. backward_batch (l\<lparr>mean := m, var := v\<rparr>) gbuf ctx
                    = Inr (l\<lparr>mean := m, var := v\<rparr>, g))"
proof -
  note fr = train_frame [OF fwd]
  have dims: "Kernels l0 = Kernels l" "W l0 = W l" "H l0 = H l"
    using fr by simp_all
  have v: "vectors_ok l"
    using fwd by (rule train_vectors_ok)
  have ok: "train_ok l0 buf inp"
    using fwd by (rule train_returns)
  have rows: "length (inherit_if_null (input_pre l0) inp) = B"
    using cache B by (cases "input_pre l0") (simp_all add: inherit_if_null_def)
  from train_input_pre [OF fwd] obtain pre where pre: "input_pre l = Some pre"
    and shp: "shape4 B (Kernels l) (W l) (H l) pre"
    and cells: "\<forall>b<B. \<forall>k<Kernels l. \<forall>i<W l. \<forall>j<H l.
            pre ! b ! k ! i ! j = (inp ! b ! k ! i ! j - last_mean l ! k) * inv_var l ! k"
    unfolding rows dims B by blast
  have "1 < size_t (B * W l * H l)"
    using ok by (simp add: train_ok_def dims B)
  then have S: "0 < B * W l * H l"
    unfolding size_t_small [OF small] by linarith
  have lens: "length (gamma l) = Kernels l" "length (inv_var l) = Kernels l"
    using v by (simp_all add: vectors_ok_def)
  from backward_result [OF pre shp ctx(2) _ lens gbuf S small, of ] ctx(1) B
  obtain g where g: "backward_batch l gbuf ctx = Inr (l, g)"
    and gcells: "\<forall>b<B. \<forall>k<Kernels l. \<forall>i<W l. \<forall>j<H l.
              g ! b ! k ! i ! j =
                inv_var l ! k / real (B * W l * H l)
                * (real (B * W l * H l) * (errors ctx ! b ! k ! i ! j * gamma l ! k)
                   - chan_sum B (W l) (H l) (\<lambda>b i j. errors ctx ! b ! k ! i ! j * gamma l ! k)
                   - pre ! b ! k ! i ! j
                     * chan_sum B (W l) (H l)
                         (\<lambda>b i j. errors ctx ! b ! k ! i ! j * gamma l ! k * pre ! b ! k ! i ! j))"
    by blast
  have iv: "\<forall>k<Kernels l. inv_var l ! k = 1 / sqrt (last_var l ! k + e)"
    using train_inv_var [OF fwd] by (simp add: dims)
  have indep: "\<forall>m v. backward_batch (l\<lparr>mean := m, var := v\<rparr>) gbuf ctx
                    = Inr (l\<lparr>mean := m, var := v\<rparr>, g)"
    by (simp add: backward_running_stats g)
  show ?thesis
    using g pre gcells cells iv indep by (intro exI [of _ g] exI [of _ pre]) simp
qed

lemma train_all_input_pre:
  assumes "train_all l outp xs = Inr (l', out)"
    and "input_pre l = Some p"
    and "shape4 (length p) (Kernels l) (W l) (H l) p"
  shows "\<exists>pre. input_pre l' = Some pre \<and> shape4 (length p) (Kernels l) (W l) (H l) pre \<and>
           (\<forall>x\<in>set xs. length x \<le> length p)"
  using assms
proof (induction xs arbitrary: l outp p)
  case Nil
  then show ?case by simp
next
  case (Cons x xs)
  from Cons.prems(1) obtain l1 o1
    where 1: "train_batch_activate_hidden l outp x = Inr (l1, o1)"
      and rest: "train_all l1 o1 xs = Inr (l', out)"
    by (auto split: sum.splits)
  note fr = train_frame [OF 1]
  have "holds_batch (length x) (Kernels l) (W l) (H l) p"
    using train_returns [OF 1] Cons.prems(2) by (simp add: train_ok_def inherit_if_null_def)
  then have le: "length x \<le> length p"
    by (simp add: holds_batch_def)
  from train_input_pre [OF 1] Cons.prems(2) obtain p1 where p1: "input_pre l1 = Some p1"
    and sh1: "shape4 (length p) (Kernels l) (W l) (H l) p1"
    by (auto simp: inherit_if_null_def)
  have len1: "length p1 = length p"
    using sh1 by (rule shape4_length)
  from Cons.IH [OF rest p1] sh1 fr le show ?case
    by (simp add: len1)
qed

text \<open>
  Claim C2, as amended.  After a sequence of training forward calls that all return, on
  a layer whose \<open>input_pre\<close> had no memory before the first call, \<open>input_pre\<close> has the
  shape \<open>[B1, K, W, H]\<close> where \<open>B1\<close> is the batch size of the first call: memory is
  allocated only when there is none, and is used as it is otherwise.  Every later batch
  has at most \<open>B1\<close> samples, and \<open>input_pre\<close> has the shape of the batch of the most
  recent call exactly when that batch has \<open>B1\<close> samples.
\<close>

theorem input_pre_keeps_first_shape:
  assumes "train_all l outp (x # xs) = Inr (l', out)"
    and "input_pre l = None"
  shows "\<exists>pre. input_pre l' = Some pre \<and>
           shape4 (length x) (Kernels l) (W l) (H l) pre \<and>
           (\<forall>y\<in>set xs. length y \<le> length x) \<and>
           (shape4 (length (last (x # xs))) (Kernels l) (W l) (H l) pre
              \<longleftrightarrow> length (last (x # xs)) = length x)"
proof -
  from assms(1) obtain l1 o1
    where 1: "train_batch_activate_hidden l outp x = Inr (l1, o1)"
      and rest: "train_all l1 o1 xs = Inr (l', out)"
    by (auto split: sum.splits)
  note fr = train_frame [OF 1]
  from train_input_pre [OF 1] assms(2) obtain p1 where p1: "input_pre l1 = Some p1"
    and sh1: "shape4 (length x) (Kernels l) (W l) (H l) p1"
    by (auto simp: inherit_if_null_def)
  have len1: "length p1 = length x"
    using sh1 by (rule shape4_length)
  from train_all_input_pre [OF rest p1] sh1 fr obtain pre where pre: "input_pre l' = Some pre"
    and sh: "shape4 (length x) (Kernels l) (W l) (H l) pre"
    and le: "\<forall>y\<in>set xs. length y \<le> length x"
    by (auto simp: len1)
  have "shape4 n (Kernels l) (W l) (H l) pre \<longleftrightarrow> n = length x" for n
    using sh by (auto simp: shape4_def)
  with pre sh le show ?thesis
    by blast
qed

section \<open>The claims on concrete inputs\<close>

lemmas batch3_defs = batch3_input_def batch3_buffer_def

lemma example_train':
  "train_batch_activate_hidden example_layer example_buffer example_input =
     Inr (example_trained, example_output)"
  using example_train by (simp add: example_trained_def example_output_def)

lemma batch3_then_batch2:
  "train_all example_layer batch3_buffer [batch3_input, example_input] =
     Inr (example_layer
            \<lparr>last_mean := [3], last_var := [1], inv_var := [1 / sqrt (1 + e)],
             input_pre := Some [[[[- (1 / sqrt (1 + e))]]], [[[1 / sqrt (1 + e)]]],
                                [[[2 / sqrt (2 + e)]]]],
             mean := [39 / 100], var := [19 / 50]\<rparr>,
          [[[[- (1 / sqrt (1 + e))]]], [[[1 / sqrt (1 + e)]]], [[[2 / sqrt (2 + e)]]]])"
  by (simp add: train_batch_activate_hidden_def example_defs batch3_defs shape_defs etl_defs
      for_upto_numeral)

lemma batch3_train:
  "train_batch_activate_hidden example_layer batch3_buffer batch3_input =
     Inr (example_layer
            \<lparr>last_mean := [1], last_var := [2], inv_var := [1 / sqrt (2 + e)],
             input_pre := Some [[[[- (1 / sqrt (2 + e))]]], [[[- (1 / sqrt (2 + e))]]],
                                [[[2 / sqrt (2 + e)]]]],
             mean := [1 / 10], var := [1 / 5]\<rparr>,
          [[[[- (1 / sqrt (2 + e))]]], [[[- (1 / sqrt (2 + e))]]], [[[2 / sqrt (2 + e)]]]])"
  by (simp add: train_batch_activate_hidden_def example_defs batch3_defs shape_defs etl_defs
      for_upto_numeral)

text \<open>
  Claim C1, on the code.  The claim has the running variance blended with the batch
  variance times the exact ratio \<open>S / (S - 1)\<close>.  \<open>S\<close> is a \<^verbatim>\<open>size_t\<close>, and the code's
  \<^verbatim>\<open>S / (S - 1)\<close> is the integer quotient.  For \<open>K = W = H = 1\<close>, \<open>B = 3\<close> and input
  \<open>[[0], [0], [3]]\<close> on the layer of the scenario: \<open>S = 3\<close>, \<open>last_mean = 1\<close>,
  \<open>last_var = 2\<close>, and the pass leaves \<open>var = 0.1 * (3 div 2) * 2 = 0.2\<close>, not
  \<open>0.1 * (3 / 2) * 2 = 0.3\<close>.
\<close>

theorem running_variance_integer_quotient:
  "train_batch_activate_hidden example_layer batch3_buffer batch3_input =
     Inr (example_layer
            \<lparr>last_mean := [1], last_var := [2], inv_var := [1 / sqrt (2 + e)],
             input_pre := Some [[[[- (1 / sqrt (2 + e))]]], [[[- (1 / sqrt (2 + e))]]],
                                [[[2 / sqrt (2 + e)]]]],
             mean := [1 / 10], var := [1 / 5]\<rparr>,
          [[[[- (1 / sqrt (2 + e))]]], [[[- (1 / sqrt (2 + e))]]], [[[2 / sqrt (2 + e)]]]]) \<and>
   momentum example_layer = 9 / 10 \<and> var example_layer = [0] \<and>
   (1 / 5 :: real) = 9 / 10 * 0 + (1 - 9 / 10) * (real (3 div (3 - 1)) * 2) \<and>
   (1 / 5 :: real) \<noteq> 9 / 10 * 0 + (1 - 9 / 10) * ((3 / (3 - 1)) * 2)"
  using batch3_train by (simp add: example_defs)

text \<open>
  Claim C2 as stated fails.  On the layer of the scenario, a training forward pass on a
  batch of three samples followed by one on a batch of two returns, and leaves
  \<open>input_pre\<close> with three samples, the third one still from the first call: not the
  shape \<open>[2, 1, 1, 1]\<close> of the most recent batch.
\<close>

theorem input_pre_shape_counterexample:
  "train_all example_layer batch3_buffer [batch3_input, example_input] =
     Inr (example_layer
            \<lparr>last_mean := [3], last_var := [1], inv_var := [1 / sqrt (1 + e)],
             input_pre := Some [[[[- (1 / sqrt (1 + e))]]], [[[1 / sqrt (1 + e)]]],
                                [[[2 / sqrt (2 + e)]]]],
             mean := [39 / 100], var := [19 / 50]\<rparr>,
          [[[[- (1 / sqrt (1 + e))]]], [[[1 / sqrt (1 + e)]]], [[[2 / sqrt (2 + e)]]]]) \<and>
   length example_input = 2 \<and>
   \<not> shape4 (length example_input) 1 1 1
       [[[[- (1 / sqrt (1 + e))]]], [[[1 / sqrt (1 + e)]]], [[[2 / sqrt (2 + e)]]]]"
  using batch3_then_batch2 by (simp add: example_input_def shape4_def)

text \<open>
  Claim C2, as amended, on the same two calls.
\<close>

theorem input_pre_keeps_first_shape_witness:
  "train_all example_layer batch3_buffer (batch3_input # [example_input]) =
     Inr (example_layer
            \<lparr>last_mean := [3], last_var := [1], inv_var := [1 / sqrt (1 + e)],
             input_pre := Some [[[[- (1 / sqrt (1 + e))]]], [[[1 / sqrt (1 + e)]]],
                                [[[2 / sqrt (2 + e)]]]],
             mean := [39 / 100], var := [19 / 50]\<rparr>,
          [[[[- (1 / sqrt (1 + e))]]], [[[1 / sqrt (1 + e)]]], [[[2 / sqrt (2 + e)]]]]) \<and>
   input_pre example_layer = None \<and>
   shape4 (length batch3_input) (Kernels example_layer) (W example_layer) (H example_layer)
     [[[[- (1 / sqrt (1 + e))]]], [[[1 / sqrt (1 + e)]]], [[[2 / sqrt (2 + e)]]]] \<and>
   length example_input \<le> length batch3_input"
proof -
  have h: "input_pre example_layer = None"
    by (simp add: example_defs)
  from input_pre_keeps_first_shape [OF batch3_then_batch2 h] batch3_then_batch2 h
  show ?thesis
    by simp
qed

text \<open>
  Claim C5 on the concrete scenario.
\<close>

theorem train_forward_formulas_witness:
  "vectors_ok example_layer \<and>
   shape4 2 (Kernels example_layer) (W example_layer) (H example_layer) example_input \<and>
   1 < 2 * W example_layer * H example_layer \<and>
   2 * W example_layer * H example_layer < 2 ^ 64 \<and>
   (case input_pre example_layer of None \<Rightarrow> True
    | Some p \<Rightarrow> holds_batch 2 (Kernels example_layer) (W example_layer) (H example_layer) p) \<and>
   holds_batch 2 (Kernels example_layer) (W example_layer) (H example_layer) example_buffer \<and>
   0 < Kernels example_layer \<and>
   (\<exists>l' out pre.
      train_batch_activate_hidden example_layer example_buffer example_input = Inr (l', out) \<and>
      input_pre l' = Some pre \<and> last_mean l' ! 0 = 3 \<and> last_var l' ! 0 = 1 \<and>
      inv_var l' ! 0 = 1 / sqrt (last_var l' ! 0 + e) \<and>
      pre ! 1 ! 0 ! 0 ! 0 = (4 - last_mean l' ! 0) * inv_var l' ! 0 \<and>
      out ! 1 ! 0 ! 0 ! 0 = gamma example_layer ! 0 * pre ! 1 ! 0 ! 0 ! 0 + beta example_layer ! 0)"
proof -
  have h: "vectors_ok example_layer"
    "shape4 2 (Kernels example_layer) (W example_layer) (H example_layer) example_input"
    "1 < 2 * W example_layer * H example_layer"
    "2 * W example_layer * H example_layer < 2 ^ 64"
    "case input_pre example_layer of None \<Rightarrow> True
      | Some p \<Rightarrow> holds_batch 2 (Kernels example_layer) (W example_layer) (H example_layer) p"
    "holds_batch 2 (Kernels example_layer) (W example_layer) (H example_layer) example_buffer"
    "0 < Kernels example_layer"
    by (simp_all add: example_defs shape_defs)
  from train_forward_formulas [OF h] example_train' h show ?thesis
    by (simp add: example_trained_def example_output_def example_defs)
qed

text \<open>
  Claim C10 on the concrete scenario.
\<close>

theorem train_frame_fields_witness:
  "train_batch_activate_hidden example_layer example_buffer example_input
     = Inr (example_trained, example_output) \<and>
   gamma example_trained = gamma example_layer \<and> beta example_trained = beta example_layer \<and>
   momentum example_trained = momentum example_layer \<and>
   Kernels example_trained = Kernels example_layer \<and>
   W example_trained = W example_layer \<and> H example_trained = H example_layer"
  using train_frame_fields [OF example_train'] example_train' by simp

text \<open>
  Claim C9 on the concrete scenario: two inference passes on the untrained layer, the
  second one into a buffer for three samples.
\<close>

theorem inference_frame_witness:
  "test_batch_activate_hidden example_layer example_buffer example_input
     = Inr (example_layer, [[[[2 / sqrt e]]], [[[4 / sqrt e]]]]) \<and>
   test_batch_activate_hidden example_layer batch3_buffer example_input
     = Inr (example_layer, [[[[2 / sqrt e]]], [[[4 / sqrt e]]], [[[0]]]]) \<and>
   take (length example_input) [[[[2 / sqrt e]]], [[[4 / sqrt e]]], [[[0 :: real]]]]
     = take (length example_input) [[[[2 / sqrt e]]], [[[4 / sqrt e]]]]"
  using inference_frame [OF example_test example_test3] example_test example_test3 by simp

lemmas trained_defs = example_trained_def example_output_def example_context_def

text \<open>
  Claim C8 on the layer the scenario's training pass leaves, with errors \<open>1\<close>.
\<close>

theorem gradients_formula_witness:
  "input_pre example_trained = Some example_output \<and>
   shape4 2 (Kernels example_trained) (W example_trained) (H example_trained) example_output \<and>
   shape4 2 (Kernels example_trained) (W example_trained) (H example_trained)
     (errors example_context) \<and>
   length (w_grad example_context) = Kernels example_trained \<and>
   length (b_grad example_context) = Kernels example_trained \<and>
   0 < Kernels example_trained \<and>
   (\<exists>ctx'. compute_gradients example_trained example_context = Inr (example_trained, ctx') \<and>
      w_grad ctx' ! 0 =
        chan_sum 2 (W example_trained) (H example_trained)
          (\<lambda>b i j. example_output ! b ! 0 ! i ! j * errors example_context ! b ! 0 ! i ! j) \<and>
      b_grad ctx' ! 0 =
        chan_sum 2 (W example_trained) (H example_trained)
          (\<lambda>b i j. errors example_context ! b ! 0 ! i ! j))"
proof -
  have h: "input_pre example_trained = Some example_output"
    "shape4 2 (Kernels example_trained) (W example_trained) (H example_trained) example_output"
    "shape4 2 (Kernels example_trained) (W example_trained) (H example_trained)
       (errors example_context)"
    "length (w_grad example_context) = Kernels example_trained"
    "length (b_grad example_context) = Kernels example_trained"
    "0 < Kernels example_trained"
    by (simp_all add: trained_defs example_defs shape_defs)
  from gradients_formula [OF h] h show ?thesis
    by blast
qed

text \<open>
  Claim C6 on the concrete scenario, with errors \<open>1\<close>.
\<close>

theorem backward_formula_witness:
  "train_batch_activate_hidden example_layer example_buffer example_input
     = Inr (example_trained, example_output) \<and>
   (case input_pre example_layer of None \<Rightarrow> True | Some p \<Rightarrow> length p = 2) \<and>
   length example_input = 2 \<and> input example_context = example_input \<and>
   shape4 2 (Kernels example_trained) (W example_trained) (H example_trained)
     (errors example_context) \<and>
   holds_batch 2 (Kernels example_trained) (W example_trained) (H example_trained)
     example_buffer \<and>
   2 * W example_trained * H example_trained < 2 ^ 64 \<and>
   (\<exists>g. backward_batch example_trained example_buffer example_context
          = Inr (example_trained, g))"
proof -
  have h: "case input_pre example_layer of None \<Rightarrow> True | Some p \<Rightarrow> length p = 2"
    "length example_input = 2" "input example_context = example_input"
    "shape4 2 (Kernels example_trained) (W example_trained) (H example_trained)
       (errors example_context)"
    "holds_batch 2 (Kernels example_trained) (W example_trained) (H example_trained)
       example_buffer"
    "2 * W example_trained * H example_trained < 2 ^ 64"
    by (simp_all add: trained_defs example_defs shape_defs)
  from backward_formula [OF example_train' h] example_train' h show ?thesis
    by blast
qed

text \<open>
  Beyond the claims: for every \<open>S > 2\<close> the integer quotient \<open>S / (S - 1)\<close> is \<open>1\<close>, so
  the running variance is blended with the biased batch variance as it is.
\<close>

theorem running_variance_uncorrected:
  assumes "train_batch_activate_hidden l outp inp = Inr (l', out)"
    and "2 < length inp * W l * H l" and "length inp * W l * H l < 2 ^ 64"
    and "k < Kernels l"
  shows "var l' ! k = momentum l * var l ! k + (1 - momentum l) * last_var l' ! k"
proof -
  have "length inp * W l * H l div (length inp * W l * H l - 1) = 1"
    using assms(2) by (simp add: div_nat_eqI)
  then show ?thesis
    using train_var [OF assms(1,4)] by (simp add: size_t_small [OF assms(3)])
qed

text \<open>
  The three-sample batch again.
\<close>

theorem running_variance_uncorrected_witness:
  "2 < length batch3_input * W example_layer * H example_layer \<and>
   length batch3_input * W example_layer * H example_layer < 2 ^ 64 \<and>
   0 < Kernels example_layer \<and>
   [1 / 5] ! 0 = momentum example_layer * var example_layer ! 0
                 + (1 - momentum example_layer) * [2 :: real] ! 0"
proof -
  have h: "2 < length batch3_input * W example_layer * H example_layer"
    "length batch3_input * W example_layer * H example_layer < 2 ^ 64"
    "0 < Kernels example_layer"
    by (simp_all add: example_defs batch3_defs)
  from running_variance_uncorrected [OF batch3_train h] h show ?thesis
    by simp
qed

text \<open>
  Beyond the claims: with a single observation per channel (\<open>B = W = H = 1\<close>),
  \<open>S - 1 = 0\<close> and the integer division of the last statement divides by zero.
\<close>

theorem single_observation_divides_by_zero:
  assumes "vectors_ok l" and "W l = 1" and "H l = 1"
    and "shape4 1 (Kernels l) 1 1 inp"
    and "case input_pre l of None \<Rightarrow> True | Some p \<Rightarrow> holds_batch 1 (Kernels l) 1 1 p"
    and "holds_batch 1 (Kernels l) 1 1 outp"
  shows "train_batch_activate_hidden l outp inp = Inl DivisionByZero"
proof -
  have B: "length inp = 1"
    using assms(4) by (rule shape4_length)
  have "holds_batch 1 (Kernels l) 1 1 (inherit_if_null (input_pre l) inp)"
    using assms(4,5)
    by (cases "input_pre l") (simp_all add: inherit_if_null_def holds_batch_def shape4_zeros B)
  then show ?thesis
    using assms
    by (simp add: train_batch_activate_hidden_def Let_def B size_t_def split: prod.splits)
qed

text \<open>
  A batch of one sample on the layer of the scenario.
\<close>

theorem single_observation_divides_by_zero_witness:
  "vectors_ok example_layer \<and> W example_layer = 1 \<and> H example_layer = 1 \<and>
   shape4 1 (Kernels example_layer) 1 1 [[[[2]]]] \<and>
   (case input_pre example_layer of None \<Rightarrow> True
    | Some p \<Rightarrow> holds_batch 1 (Kernels example_layer) 1 1 p) \<and>
   holds_batch 1 (Kernels example_layer) 1 1 example_buffer \<and>
   train_batch_activate_hidden example_layer example_buffer [[[[2]]]] = Inl DivisionByZero"
proof -
  have h: "vectors_ok example_layer" "W example_layer = 1" "H example_layer = 1"
    "shape4 1 (Kernels example_layer) 1 1 [[[[2]]]]"
    "case input_pre example_layer of None \<Rightarrow> True
      | Some p \<Rightarrow> holds_batch 1 (Kernels example_layer) 1 1 p"
    "holds_batch 1 (Kernels example_layer) 1 1 example_buffer"
    by (simp_all add: example_defs shape_defs)
  from single_observation_divides_by_zero [OF h] h show ?thesis
    by blast
qed

end
